theory Spec2Isabelle
  imports Complex_Main "HOL-Library.Multiset"
begin

section \<open>JavaScript values used by the aggregation code\<close>

text \<open>
  The records arrive as JSON, so a numeric field holds a finite number; such fields are
  modelled by \<^typ>\<open>rat\<close> (amounts, counters) or \<^typ>\<open>int\<close> (positions, level numbers,
  week numbers). Arithmetic on them is exact: the rounding of IEEE doubles is not
  modelled. An optional field (\<^verbatim>\<open>field?: T\<close>) is an \<^typ>\<open>'a option\<close>, \<open>None\<close> standing for
  \<^verbatim>\<open>undefined\<close>. Fields that no modelled function reads are left out of the records.

  The finishing position of a participation is read through \<^verbatim>\<open>(pg: any).placed\<close>, so it is
  an untyped value: absent, \<^verbatim>\<open>null\<close> or a number.
\<close>

datatype jsval = Undefined | Null | Num int

text \<open>Truthiness (\<^verbatim>\<open>ToBoolean\<close>) of the values that occur.\<close>

fun truthy :: "jsval \<Rightarrow> bool" where
  "truthy Undefined = False"
| "truthy Null = False"
| "truthy (Num n) = (n \<noteq> 0)"

definition truthy_str :: "string \<Rightarrow> bool" where
  "truthy_str s = (s \<noteq> [])"

text \<open>\<^verbatim>\<open>x || 0\<close> for \<^verbatim>\<open>x: number | undefined\<close>.\<close>

fun or_zero :: "rat option \<Rightarrow> rat" where
  "or_zero None = 0"
| "or_zero (Some v) = (if v \<noteq> 0 then v else 0)"

text \<open>
  A computed number may be \<^verbatim>\<open>NaN\<close>: the time value of an unparseable date, and every
  difference that involves it.
\<close>

datatype number = NaN | Finite rat

fun num_sub :: "number \<Rightarrow> number \<Rightarrow> number" where
  "num_sub (Finite a) (Finite b) = Finite (a - b)"
| "num_sub _ _ = NaN"

subsection \<open>Number to string, as template literals do\<close>

definition digit_char :: "nat \<Rightarrow> char" where
  "digit_char d = ''0123456789'' ! d"

fun digits :: "nat \<Rightarrow> string" where
  "digits n = (if n < 10 then [digit_char n] else digits (n div 10) @ [digit_char (n mod 10)])"

declare digits.simps [simp del]

definition String_int :: "int \<Rightarrow> string" where
  "String_int i = (if i < 0 then CHR ''-'' # digits (nat (- i)) else digits (nat i))"

fun toString :: "jsval \<Rightarrow> string" where
  "toString Undefined = ''undefined''"
| "toString Null = ''null''"
| "toString (Num i) = String_int i"

subsection \<open>\<^verbatim>\<open>Array.prototype.sort\<close> with a comparator\<close>

text \<open>
  The language defines the sort as stable, and reads a comparator result \<^verbatim>\<open>NaN\<close> as
  \<open>+0\<close>. For a comparator that is consistent on the elements, every conforming sort returns
  one list, the stable sorted one; \<open>js_sort\<close>, the stable insertion sort, computes it. The
  difference of two finite numbers has the sign of their exact difference, so a comparator
  \<^verbatim>\<open>a.x - b.x\<close> on finite numbers is \<open>Finite\<close> of the exact difference as far as the
  sort can tell, and it is consistent: the sorts of the leaderboard and of the results
  table are written with \<open>js_sort\<close>.
\<close>

fun sortCompare :: "('a \<Rightarrow> 'a \<Rightarrow> number) \<Rightarrow> 'a \<Rightarrow> 'a \<Rightarrow> rat" where
  "sortCompare comparefn x y = (case comparefn x y of NaN \<Rightarrow> 0 | Finite v \<Rightarrow> v)"

fun js_insert :: "('a \<Rightarrow> 'a \<Rightarrow> number) \<Rightarrow> 'a \<Rightarrow> 'a list \<Rightarrow> 'a list" where
  "js_insert comparefn x [] = [x]"
| "js_insert comparefn x (y # ys) =
     (if sortCompare comparefn x y \<le> 0 then x # y # ys else y # js_insert comparefn x ys)"

definition js_sort :: "('a \<Rightarrow> 'a \<Rightarrow> number) \<Rightarrow> 'a list \<Rightarrow> 'a list" where
  "js_sort comparefn xs = foldr (js_insert comparefn) xs []"

text \<open>
  A comparator is consistent on the elements when it never answers \<^verbatim>\<open>NaN\<close> on them and
  its signs form an order: every element equals itself, equality is symmetric, and equal,
  less and greater are each transitive (the language's definition). For a comparator that
  is not consistent the language leaves the order to the engine: \<open>array_sort\<close> takes the
  engine's answer as the parameter \<open>engine\<close>. Only the date comparator of the game history
  can answer \<^verbatim>\<open>NaN\<close>.
\<close>

definition consistent :: "('a \<Rightarrow> 'a \<Rightarrow> number) \<Rightarrow> 'a list \<Rightarrow> bool" where
  "consistent comparefn xs =
     (\<forall>a \<in> set xs. \<forall>b \<in> set xs.
        comparefn a b \<noteq> NaN
      \<and> sortCompare comparefn a a = 0
      \<and> (sortCompare comparefn a b = 0 \<longrightarrow> sortCompare comparefn b a = 0)
      \<and> (\<forall>c \<in> set xs.
           (sortCompare comparefn a b = 0 \<and> sortCompare comparefn b c = 0
              \<longrightarrow> sortCompare comparefn a c = 0)
         \<and> (sortCompare comparefn a b < 0 \<and> sortCompare comparefn b c < 0
              \<longrightarrow> sortCompare comparefn a c < 0)
         \<and> (sortCompare comparefn a b > 0 \<and> sortCompare comparefn b c > 0
              \<longrightarrow> sortCompare comparefn a c > 0)))"

definition array_sort ::
  "(('a \<Rightarrow> 'a \<Rightarrow> number) \<Rightarrow> 'a list \<Rightarrow> 'a list) \<Rightarrow> ('a \<Rightarrow> 'a \<Rightarrow> number) \<Rightarrow> 'a list \<Rightarrow> 'a list"
where
  "array_sort engine comparefn xs =
     (if consistent comparefn xs then js_sort comparefn xs else engine comparefn xs)"

text \<open>\<^verbatim>\<open>forEach(x => map.set(key x, val x))\<close> on a fresh \<^verbatim>\<open>Map\<close>: a later record overwrites.\<close>

definition build_map :: "('a \<Rightarrow> 'k) \<Rightarrow> ('a \<Rightarrow> 'v) \<Rightarrow> 'a list \<Rightarrow> ('k \<rightharpoonup> 'v)" where
  "build_map key val xs = foldl (\<lambda>m x. m(key x \<mapsto> val x)) Map.empty xs"

section \<open>Record types (types/api.ts)\<close>

record Player =
  p_id :: string
  p_orgId :: string
  p_firstName :: string
  p_lastName :: string
  p_nickname :: "string option"

record TournamentPlayer =
  tp_id :: string
  tp_tournamentId :: string
  tp_playerId :: string
  tp_totalPoints :: "rat option"
  tp_gamesPlayed :: "rat option"
  tp_totalEliminated :: "rat option"
  tp_totalBounties :: "rat option"
  tp_earnings :: "rat option"

text \<open>
  \<^verbatim>\<open>LeaderboardEntry extends TournamentPlayer\<close>: the entry is built by spreading the
  standing and overriding the counters, so the counters are plain numbers here.
\<close>

record LeaderboardEntry =
  e_id :: string
  e_tournamentId :: string
  e_playerId :: string
  e_totalEliminated :: "rat option"
  e_earnings :: "rat option"
  e_rank :: nat
  e_totalPoints :: rat
  e_gamesPlayed :: rat
  e_totalWinnings :: rat
  e_totalKnockouts :: rat
  e_totalBounties :: rat
  e_averagePoints :: rat
  e_player :: Player

record Tournament =
  t_id :: string
  t_orgId :: string
  t_name :: string
  t_pointsId :: string

record TournamentSchedule =
  s_id :: string
  s_tournamentId :: "string option"
  s_tournamnetId :: "string option"
  s_orgId :: string
  s_gameId :: "string option"
  s_date :: "string option"
  s_time :: "string option"
  s_weekNum :: "int option"
  s_status :: "string option"

record LiveGame =
  g_id :: string
  g_tournamentId :: string
  g_scheduleId :: "string option"
  g_numOfPlayers :: "int option"
  g_totalPot :: "rat option"

text \<open>
  A participation row. The interface declares \<^verbatim>\<open>position\<close>, \<^verbatim>\<open>points\<close> and
  \<^verbatim>\<open>prizeMoney\<close>; the resolvers read none of them, only \<^verbatim>\<open>placed\<close>.
\<close>

record LivePlayer =
  lp_id :: string
  lp_tournamentId :: string
  lp_liveGameId :: string
  lp_playerId :: string
  lp_placed :: jsval
  lp_position :: "int option"
  lp_points :: "rat option"
  lp_prizeMoney :: "rat option"

record PointLevel =
  level_id :: string
  level_pointsId :: string
  level_levelNum :: int
  level_amount :: rat

record LivePrize =
  prize_id :: string
  prize_tournamentId :: string
  prize_liveGameId :: string
  prize_place :: int
  prize_amount :: rat

record PlayerGameHistory =
  h_gameDate :: string
  h_gameNumber :: "int option"
  h_position :: jsval
  h_points :: rat
  h_prizeMoney :: "rat option"

text \<open>The row type of the results modal (\<^verbatim>\<open>interface GameResult\<close>).\<close>

record GameResult =
  r_position :: int
  r_playerName :: string
  r_points :: rat
  r_prizeMoney :: rat

datatype LeaderboardView = points | winnings | knockouts | bounties

section \<open>The remote record source (services/api.ts)\<close>

text \<open>
  \<^verbatim>\<open>fetchAPI(endpoint, params)\<close> returns the records the service answers with, or \<open>[]\<close> on
  any failure. The service is outside the repository: its answers are a parameter. The
  schedule request carries its \<^verbatim>\<open>$filter\<close>, equality conditions joined by \<^verbatim>\<open>and\<close>, to the
  service, since the client filters the answer once more; the other requests are named by
  the id they ask for.
\<close>

datatype cond = Eq string string

record backend =
  fetch_tournament :: "Tournament list"
  fetch_tournament_schedule :: "cond list \<Rightarrow> TournamentSchedule list"
  fetch_live_game :: "string \<Rightarrow> LiveGame list"
  fetch_live_players :: "string \<Rightarrow> LivePlayer list"
  fetch_player :: "Player list"
  fetch_tournament_players :: "string \<Rightarrow> TournamentPlayer list"
  fetch_point_level :: "string \<Rightarrow> PointLevel list"
  fetch_live_prizes :: "string \<Rightarrow> LivePrize list"

text \<open>\<^verbatim>\<open>ORG_ID\<close> is read from the environment: a parameter \<open>org\<close>.\<close>

definition getTournaments :: "backend \<Rightarrow> string \<Rightarrow> Tournament list" where
  "getTournaments be org = filter (\<lambda>t. t_orgId t = org) (fetch_tournament be)"

text \<open>
  The request is
  \<^verbatim>\<open>$filter: `orgId eq '${ORG_ID}' and tournamnetId eq '${tournamentId}'`\<close>: it names the
  misspelled field alone. The records that come back are filtered again, on either
  spelling.
\<close>

definition getTournamentSchedule :: "backend \<Rightarrow> string \<Rightarrow> string \<Rightarrow> TournamentSchedule list" where
  "getTournamentSchedule be org tournamentId =
     (let schedules = fetch_tournament_schedule be
                        [Eq ''orgId'' org, Eq ''tournamnetId'' tournamentId];
          filtered = filter (\<lambda>s. s_tournamnetId s = Some tournamentId
                                 \<or> s_tournamentId s = Some tournamentId) schedules
      in filtered)"

text \<open>
  Modelled from the spec: the record source, which is no code of the repository. Each
  collection is retrievable by a set of equality filter predicates and returns the records
  that satisfy them: \<open>schedule_service stored\<close> answers a schedule request with those of
  the stored records whose named fields have the values asked for.
\<close>

definition schedule_field :: "string \<Rightarrow> TournamentSchedule \<Rightarrow> string option" where
  "schedule_field name s =
     (if name = ''id'' then Some (s_id s)
      else if name = ''tournamentId'' then s_tournamentId s
      else if name = ''tournamnetId'' then s_tournamnetId s
      else if name = ''orgId'' then Some (s_orgId s)
      else if name = ''gameId'' then s_gameId s
      else if name = ''date'' then s_date s
      else if name = ''time'' then s_time s
      else if name = ''status'' then s_status s
      else None)"

fun holds :: "cond \<Rightarrow> TournamentSchedule \<Rightarrow> bool" where
  "holds (Eq name v) s = (schedule_field name s = Some v)"

definition schedule_service :: "TournamentSchedule list \<Rightarrow> cond list \<Rightarrow> TournamentSchedule list" where
  "schedule_service stored query = filter (\<lambda>s. list_all (\<lambda>c. holds c s) query) stored"

definition getLiveGames :: "backend \<Rightarrow> string \<Rightarrow> LiveGame list" where
  "getLiveGames be tournamentId = fetch_live_game be tournamentId"

definition getLivePlayers :: "backend \<Rightarrow> string \<Rightarrow> LivePlayer list" where
  "getLivePlayers be tournamentId = fetch_live_players be tournamentId"

definition getPointLevels :: "backend \<Rightarrow> string \<Rightarrow> PointLevel list" where
  "getPointLevels be pointsId = fetch_point_level be pointsId"

definition getLivePrizes :: "backend \<Rightarrow> string \<Rightarrow> LivePrize list" where
  "getLivePrizes be tournamentId = fetch_live_prizes be tournamentId"

definition getPlayers :: "backend \<Rightarrow> Player list" where
  "getPlayers be = fetch_player be"

definition getTournamentPlayers :: "backend \<Rightarrow> string \<Rightarrow> TournamentPlayer list" where
  "getTournamentPlayers be tournamentId = fetch_tournament_players be tournamentId"

section \<open>Leaderboard (components/Leaderboard.tsx)\<close>

definition unknownPlayer :: "string \<Rightarrow> Player" where
  "unknownPlayer playerId =
     \<lparr>p_id = playerId, p_orgId = '''', p_firstName = ''Unknown'', p_lastName = ''Player'',
      p_nickname = None\<rparr>"

text \<open>
  \<^verbatim>\<open>(tp.gamesPlayed && tp.totalPoints && tp.gamesPlayed > 0) ? tp.totalPoints / tp.gamesPlayed : 0\<close>
\<close>

definition averagePoints :: "TournamentPlayer \<Rightarrow> rat" where
  "averagePoints tp =
     (case tp_gamesPlayed tp of
        None \<Rightarrow> 0
      | Some g \<Rightarrow>
          (case tp_totalPoints tp of
             None \<Rightarrow> 0
           | Some t \<Rightarrow> if g \<noteq> 0 \<and> t \<noteq> 0 \<and> g > 0 then t / g else 0))"

definition leaderboardEntry :: "(string \<rightharpoonup> Player) \<Rightarrow> nat \<times> TournamentPlayer \<Rightarrow> LeaderboardEntry" where
  "leaderboardEntry playerMap it =
     (case it of (index, tp) \<Rightarrow>
        \<lparr>e_id = tp_id tp, e_tournamentId = tp_tournamentId tp, e_playerId = tp_playerId tp,
         e_totalEliminated = tp_totalEliminated tp, e_earnings = tp_earnings tp,
         e_rank = index + 1,
         e_totalPoints = or_zero (tp_totalPoints tp),
         e_gamesPlayed = or_zero (tp_gamesPlayed tp),
         e_totalWinnings = or_zero (tp_earnings tp),
         e_totalKnockouts = or_zero (tp_totalEliminated tp),
         e_totalBounties = or_zero (tp_totalBounties tp),
         e_averagePoints = averagePoints tp,
         e_player = (case playerMap (tp_playerId tp) of
                       Some p \<Rightarrow> p
                     | None \<Rightarrow> unknownPlayer (tp_playerId tp))\<rparr>)"

record LeaderboardState =
  view :: LeaderboardView
  leaderboard :: "LeaderboardEntry list"
  players :: "string \<rightharpoonup> Player"
  loading :: bool

definition initialLeaderboardState :: LeaderboardState where
  "initialLeaderboardState =
     \<lparr>view = points, leaderboard = [], players = Map.empty, loading = True\<rparr>"

definition loadLeaderboard :: "backend \<Rightarrow> string \<Rightarrow> LeaderboardState \<Rightarrow> LeaderboardState" where
  "loadLeaderboard be tournamentId st =
     (let tournamentPlayers = getTournamentPlayers be tournamentId;
          allPlayers = getPlayers be;
          playerMap = build_map p_id (\<lambda>p. p) allPlayers;
          entries = map (leaderboardEntry playerMap) (enumerate 0 tournamentPlayers)
      in st\<lparr>players := playerMap, leaderboard := entries, loading := False\<rparr>)"

text \<open>\<^verbatim>\<open>setView(tab.view)\<close>: the only state the tabs change.\<close>

definition setView :: "LeaderboardView \<Rightarrow> LeaderboardState \<Rightarrow> LeaderboardState" where
  "setView v st = st\<lparr>view := v\<rparr>"

text \<open>The metric each comparator reads, \<^verbatim>\<open>(e.totalX || 0)\<close>.\<close>

fun metric :: "LeaderboardView \<Rightarrow> LeaderboardEntry \<Rightarrow> rat" where
  "metric points e = or_zero (Some (e_totalPoints e))"
| "metric winnings e = or_zero (Some (e_totalWinnings e))"
| "metric knockouts e = or_zero (Some (e_totalKnockouts e))"
| "metric bounties e = or_zero (Some (e_totalBounties e))"

definition getSortedLeaderboard :: "LeaderboardState \<Rightarrow> LeaderboardEntry list" where
  "getSortedLeaderboard st =
     (let sorted = leaderboard st
      in case view st of
           points \<Rightarrow> js_sort (\<lambda>a b. Finite (metric points b - metric points a)) sorted
         | winnings \<Rightarrow> js_sort (\<lambda>a b. Finite (metric winnings b - metric winnings a)) sorted
         | knockouts \<Rightarrow> js_sort (\<lambda>a b. Finite (metric knockouts b - metric knockouts a)) sorted
         | bounties \<Rightarrow> js_sort (\<lambda>a b. Finite (metric bounties b - metric bounties a)) sorted)"

text \<open>
  The table body: \<^verbatim>\<open>sortedData.map((entry, index) => ...)\<close>; the rank cell shows
  \<^verbatim>\<open>index + 1\<close>.
\<close>

record LeaderboardRow =
  row_rank :: nat
  row_entry :: LeaderboardEntry

definition renderRows :: "LeaderboardEntry list \<Rightarrow> LeaderboardRow list" where
  "renderRows sortedData =
     map (\<lambda>(index, entry). \<lparr>row_rank = index + 1, row_entry = entry\<rparr>) (enumerate 0 sortedData)"

definition renderLeaderboard :: "LeaderboardState \<Rightarrow> LeaderboardRow list" where
  "renderLeaderboard st = renderRows (getSortedLeaderboard st)"

section \<open>Lookup maps shared by the two resolvers\<close>

text \<open>\<^verbatim>\<open>pointLevelMap.set(level.levelNum, level.amount)\<close>: the keys are numbers.\<close>

definition pointLevelMap_of :: "PointLevel list \<Rightarrow> (jsval \<rightharpoonup> rat)" where
  "pointLevelMap_of pointLevels =
     build_map (\<lambda>level. Num (level_levelNum level)) level_amount pointLevels"

text \<open>The template literal \<^verbatim>\<open>`${liveGameId}_${place}`\<close>.\<close>

definition prizeKey :: "string \<Rightarrow> jsval \<Rightarrow> string" where
  "prizeKey liveGameId place = liveGameId @ ''_'' @ toString place"

definition prizeMap_of :: "LivePrize list \<Rightarrow> (string \<rightharpoonup> rat)" where
  "prizeMap_of livePrizes =
     build_map (\<lambda>prize. prizeKey (prize_liveGameId prize) (Num (prize_place prize)))
       prize_amount livePrizes"

text \<open>
  \<^verbatim>\<open>tournament?.pointsId ? await getPointLevels(tournament.pointsId) : []\<close>
\<close>

definition pointLevels_of :: "backend \<Rightarrow> Tournament option \<Rightarrow> PointLevel list" where
  "pointLevels_of be tournament =
     (case tournament of
        None \<Rightarrow> []
      | Some t \<Rightarrow> if truthy_str (t_pointsId t) then getPointLevels be (t_pointsId t) else [])"

text \<open>\<^verbatim>\<open>position ? pointLevelMap.get(position) || 0 : 0\<close>\<close>

definition calculatedPoints :: "(jsval \<rightharpoonup> rat) \<Rightarrow> jsval \<Rightarrow> rat" where
  "calculatedPoints pointLevelMap position =
     (if truthy position then or_zero (pointLevelMap position) else 0)"

section \<open>Single-game results (components/GameResultsModal.tsx)\<close>

text \<open>\<^verbatim>\<open>position || 999\<close>\<close>

fun or_999 :: "jsval \<Rightarrow> int" where
  "or_999 (Num n) = (if n \<noteq> 0 then n else 999)"
| "or_999 Undefined = 999"
| "or_999 Null = 999"

definition gameResult ::
  "(string \<rightharpoonup> Player) \<Rightarrow> (jsval \<rightharpoonup> rat) \<Rightarrow> (string \<rightharpoonup> rat) \<Rightarrow> LiveGame \<Rightarrow> LivePlayer \<Rightarrow> GameResult"
where
  "gameResult playerMap pointLevelMap prizeMap game gp =
     (let player = playerMap (lp_playerId gp);
          position = lp_placed gp;
          points = calculatedPoints pointLevelMap position;
          prizeKey = prizeKey (g_id game) position;
          prizeMoney = or_zero (prizeMap prizeKey)
      in \<lparr>r_position = or_999 position,
          r_playerName = (case player of
                            Some p \<Rightarrow> p_firstName p @ '' '' @ p_lastName p
                          | None \<Rightarrow> ''Unknown Player''),
          r_points = points,
          r_prizeMoney = prizeMoney\<rparr>)"

record GameResultsState =
  results :: "GameResult list"
  gr_loading :: bool
  totalPlayers :: int
  totalPrizePool :: rat

definition initialGameResultsState :: GameResultsState where
  "initialGameResultsState =
     \<lparr>results = [], gr_loading = True, totalPlayers = 0, totalPrizePool = 0\<rparr>"

text \<open>
  The rows of one played game, as the \<^verbatim>\<open>map/filter/sort\<close> chain builds them:
  \<open>gamePlayers_of\<close> is \<^verbatim>\<open>gamePlayers\<close>, \<open>gameResult_of\<close> the function given to
  \<^verbatim>\<open>map\<close>, closed over the lookup maps.
\<close>

definition gamePlayers_of :: "backend \<Rightarrow> string \<Rightarrow> LiveGame \<Rightarrow> LivePlayer list" where
  "gamePlayers_of be tournamentId game =
     (let allLivePlayers = getLivePlayers be tournamentId
      in filter (\<lambda>lp. lp_liveGameId lp = g_id game) allLivePlayers)"

definition gameResult_of :: "backend \<Rightarrow> string \<Rightarrow> string \<Rightarrow> LiveGame \<Rightarrow> LivePlayer \<Rightarrow> GameResult" where
  "gameResult_of be org tournamentId game =
     (let allPlayers = getPlayers be;
          livePrizes = getLivePrizes be tournamentId;
          tournaments = getTournaments be org;
          tournament = find (\<lambda>t. t_id t = tournamentId) tournaments;
          pointLevels = pointLevels_of be tournament;
          pointLevelMap = pointLevelMap_of pointLevels;
          playerMap = build_map p_id (\<lambda>p. p) allPlayers;
          prizeMap = prizeMap_of (filter (\<lambda>prize. prize_liveGameId prize = g_id game) livePrizes)
      in gameResult playerMap pointLevelMap prizeMap game)"

definition gameResults_of :: "backend \<Rightarrow> string \<Rightarrow> string \<Rightarrow> LiveGame \<Rightarrow> GameResult list" where
  "gameResults_of be org tournamentId game =
     js_sort (\<lambda>a b. Finite (of_int (r_position a) - of_int (r_position b)))
       (filter (\<lambda>r. r_position r \<noteq> 999)
          (map (gameResult_of be org tournamentId game) (gamePlayers_of be tournamentId game)))"

definition loadGameResults ::
  "backend \<Rightarrow> string \<Rightarrow> TournamentSchedule \<Rightarrow> string \<Rightarrow> GameResultsState \<Rightarrow> GameResultsState"
where
  "loadGameResults be org schedule tournamentId st =
     (let liveGames = getLiveGames be tournamentId
      in case find (\<lambda>g. g_scheduleId g = Some (s_id schedule)) liveGames of
           None \<Rightarrow> st\<lparr>results := [], gr_loading := False\<rparr>
         | Some game \<Rightarrow>
             (let gamePlayers = gamePlayers_of be tournamentId game;
                  gameResults = gameResults_of be org tournamentId game
              in st\<lparr>results := gameResults,
                    totalPlayers := (case g_numOfPlayers game of
                                       Some n \<Rightarrow> if n \<noteq> 0 then n else int (length gamePlayers)
                                     | None \<Rightarrow> int (length gamePlayers)),
                    totalPrizePool := foldl (\<lambda>sum r. sum + r_prizeMoney r) 0 gameResults,
                    gr_loading := False\<rparr>))"

section \<open>Player game history (components/PlayerDetailModal.tsx)\<close>

definition historyEntry ::
  "(string \<rightharpoonup> LiveGame) \<Rightarrow> (string \<rightharpoonup> TournamentSchedule) \<Rightarrow> (jsval \<rightharpoonup> rat) \<Rightarrow> (string \<rightharpoonup> rat)
     \<Rightarrow> LivePlayer \<Rightarrow> PlayerGameHistory"
where
  "historyEntry gameMap scheduleMap pointLevelMap prizeMap pg =
     (let game = gameMap (lp_liveGameId pg);
          schedule = (case game of
                        None \<Rightarrow> None
                      | Some g \<Rightarrow>
                          (case g_scheduleId g of
                             None \<Rightarrow> None
                           | Some sid \<Rightarrow> if truthy_str sid then scheduleMap sid else None));
          position = lp_placed pg;
          calculatedPoints = calculatedPoints pointLevelMap position;
          prizeKey = prizeKey (lp_liveGameId pg) position;
          prizeMoney = prizeMap prizeKey
      in \<lparr>h_gameDate = (case schedule of
                          None \<Rightarrow> []
                        | Some s \<Rightarrow> (case s_date s of
                                       None \<Rightarrow> []
                                     | Some d \<Rightarrow> if truthy_str d then d else [])),
          h_gameNumber = (case schedule of None \<Rightarrow> None | Some s \<Rightarrow> s_weekNum s),
          h_position = position,
          h_points = calculatedPoints,
          h_prizeMoney = prizeMoney\<rparr>)"

text \<open>
  \<open>playerGames_of\<close> is \<^verbatim>\<open>playerGames\<close>, \<open>historyEntry_of\<close> the function given to
  \<^verbatim>\<open>map\<close>, closed over the lookup maps.
\<close>

definition playerGames_of :: "backend \<Rightarrow> LeaderboardEntry \<Rightarrow> string \<Rightarrow> LivePlayer list" where
  "playerGames_of be player tournamentId =
     (let livePlayers = getLivePlayers be tournamentId
      in filter (\<lambda>lp. lp_playerId lp = e_playerId player) livePlayers)"

definition historyEntry_of ::
  "backend \<Rightarrow> string \<Rightarrow> string \<Rightarrow> Tournament \<Rightarrow> LivePlayer \<Rightarrow> PlayerGameHistory"
where
  "historyEntry_of be org tournamentId tournament =
     (let liveGames = getLiveGames be tournamentId;
          schedules = getTournamentSchedule be org tournamentId;
          livePrizes = getLivePrizes be tournamentId;
          pointLevels = pointLevels_of be (Some tournament);
          pointLevelMap = pointLevelMap_of pointLevels;
          gameMap = build_map g_id (\<lambda>game. game) liveGames;
          scheduleMap = build_map s_id (\<lambda>s. s) schedules;
          prizeMap = prizeMap_of livePrizes
      in historyEntry gameMap scheduleMap pointLevelMap prizeMap)"

text \<open>
  The entries that reach the sort, \<^verbatim>\<open>playerGames.map(...).filter(h => h.gameDate)\<close>, and
  the comparator,
  \<^verbatim>\<open>(a, b) => new Date(a.gameDate).getTime() - new Date(b.gameDate).getTime()\<close>.
  \<^verbatim>\<open>new Date(s).getTime()\<close> belongs to the platform: a parameter \<open>getTime\<close>, which answers
  \<open>NaN\<close> for a string that is no date.
\<close>

definition datedEntries ::
  "backend \<Rightarrow> string \<Rightarrow> LeaderboardEntry \<Rightarrow> string \<Rightarrow> Tournament \<Rightarrow> PlayerGameHistory list"
where
  "datedEntries be org player tournamentId tournament =
     filter (\<lambda>h. truthy_str (h_gameDate h))
       (map (historyEntry_of be org tournamentId tournament)
          (playerGames_of be player tournamentId))"

definition compareDates ::
  "(string \<Rightarrow> number) \<Rightarrow> PlayerGameHistory \<Rightarrow> PlayerGameHistory \<Rightarrow> number"
where
  "compareDates getTime a b = num_sub (getTime (h_gameDate a)) (getTime (h_gameDate b))"

text \<open>The body of the \<^verbatim>\<open>try\<close> block: \<open>Inl\<close> is the thrown error.\<close>

definition playerHistory ::
  "((PlayerGameHistory \<Rightarrow> PlayerGameHistory \<Rightarrow> number) \<Rightarrow> PlayerGameHistory list
       \<Rightarrow> PlayerGameHistory list)
     \<Rightarrow> (string \<Rightarrow> number) \<Rightarrow> backend \<Rightarrow> string \<Rightarrow> LeaderboardEntry \<Rightarrow> string
     \<Rightarrow> string + PlayerGameHistory list"
where
  "playerHistory engine getTime be org player tournamentId =
     (let tournaments = getTournaments be org
      in case find (\<lambda>t. t_id t = tournamentId) tournaments of
           None \<Rightarrow> Inl ''Tournament not found''
         | Some tournament \<Rightarrow>
             Inr (array_sort engine (compareDates getTime)
                    (datedEntries be org player tournamentId tournament)))"

record PlayerDetailState =
  gameHistory :: "PlayerGameHistory list"
  pd_loading :: bool

definition initialPlayerDetailState :: PlayerDetailState where
  "initialPlayerDetailState = \<lparr>gameHistory = [], pd_loading = True\<rparr>"

text \<open>The \<^verbatim>\<open>catch\<close> only logs: a thrown error leaves the history as it was.\<close>

definition loadPlayerHistory ::
  "((PlayerGameHistory \<Rightarrow> PlayerGameHistory \<Rightarrow> number) \<Rightarrow> PlayerGameHistory list
       \<Rightarrow> PlayerGameHistory list)
     \<Rightarrow> (string \<Rightarrow> number) \<Rightarrow> backend \<Rightarrow> string \<Rightarrow> LeaderboardEntry \<Rightarrow> string
     \<Rightarrow> PlayerDetailState \<Rightarrow> PlayerDetailState"
where
  "loadPlayerHistory engine getTime be org player tournamentId st =
     (case playerHistory engine getTime be org player tournamentId of
        Inl error \<Rightarrow> st\<lparr>pd_loading := False\<rparr>
      | Inr history \<Rightarrow> st\<lparr>gameHistory := history, pd_loading := False\<rparr>)"

section \<open>Notions used to state the properties\<close>

text \<open>The time a history entry is sorted by; only read where the date is a date.\<close>

fun time_value :: "number \<Rightarrow> rat" where
  "time_value (Finite t) = t"
| "time_value NaN = 0"

definition gameTime :: "(string \<Rightarrow> number) \<Rightarrow> PlayerGameHistory \<Rightarrow> rat" where
  "gameTime getTime h = time_value (getTime (h_gameDate h))"

text \<open>
  A recorded position as it would read with no position at all: 999, 0 and \<^verbatim>\<open>null\<close>
  become \<^verbatim>\<open>undefined\<close>, every other value stays.
\<close>

fun as_missing :: "jsval \<Rightarrow> jsval" where
  "as_missing (Num n) = (if n = 999 \<or> n = 0 then Undefined else Num n)"
| "as_missing Null = Undefined"
| "as_missing Undefined = Undefined"

section \<open>Example data\<close>

definition ex_entry :: "string \<Rightarrow> nat \<Rightarrow> rat \<Rightarrow> rat \<Rightarrow> LeaderboardEntry" where
  "ex_entry pid r pts win =
     \<lparr>e_id = pid, e_tournamentId = ''T1'', e_playerId = pid, e_totalEliminated = None,
      e_earnings = Some win, e_rank = r, e_totalPoints = pts, e_gamesPlayed = 2,
      e_totalWinnings = win, e_totalKnockouts = 0, e_totalBounties = 0,
      e_averagePoints = pts / 2, e_player = unknownPlayer pid\<rparr>"

definition ex_board :: LeaderboardState where
  "ex_board =
     \<lparr>view = points,
      leaderboard = [ex_entry ''a'' 1 30 5, ex_entry ''b'' 2 20 50, ex_entry ''c'' 3 20 0],
      players = Map.empty, loading = False\<rparr>"

definition ex_player :: "string \<Rightarrow> string \<Rightarrow> string \<Rightarrow> Player" where
  "ex_player pid fname lname =
     \<lparr>p_id = pid, p_orgId = ''ORG'', p_firstName = fname, p_lastName = lname, p_nickname = None\<rparr>"

definition ex_standing :: "string \<Rightarrow> rat option \<Rightarrow> rat option \<Rightarrow> rat option \<Rightarrow> TournamentPlayer" where
  "ex_standing pid pts games earned =
     \<lparr>tp_id = ''tp_'' @ pid, tp_tournamentId = ''T1'', tp_playerId = pid, tp_totalPoints = pts,
      tp_gamesPlayed = games, tp_totalEliminated = None, tp_totalBounties = None,
      tp_earnings = earned\<rparr>"

definition ex_schedule :: "string \<Rightarrow> string option \<Rightarrow> string option \<Rightarrow> string option \<Rightarrow> TournamentSchedule" where
  "ex_schedule sid tid typo date =
     \<lparr>s_id = sid, s_tournamentId = tid, s_tournamnetId = typo, s_orgId = ''ORG'', s_gameId = None,
      s_date = date, s_time = None, s_weekNum = None, s_status = None\<rparr>"

definition ex_game :: "string \<Rightarrow> string option \<Rightarrow> rat option \<Rightarrow> LiveGame" where
  "ex_game gid sid pot =
     \<lparr>g_id = gid, g_tournamentId = ''T1'', g_scheduleId = sid, g_numOfPlayers = None,
      g_totalPot = pot\<rparr>"

definition ex_row :: "string \<Rightarrow> string \<Rightarrow> jsval \<Rightarrow> LivePlayer" where
  "ex_row gid pid placed =
     \<lparr>lp_id = gid @ pid, lp_tournamentId = ''T1'', lp_liveGameId = gid, lp_playerId = pid,
      lp_placed = placed, lp_position = None, lp_points = None, lp_prizeMoney = None\<rparr>"

definition ex_level :: "int \<Rightarrow> rat \<Rightarrow> PointLevel" where
  "ex_level n a = \<lparr>level_id = ''L'', level_pointsId = ''P1'', level_levelNum = n, level_amount = a\<rparr>"

definition ex_prize :: "string \<Rightarrow> int \<Rightarrow> rat \<Rightarrow> LivePrize" where
  "ex_prize gid place a =
     \<lparr>prize_id = ''Z'', prize_tournamentId = ''T1'', prize_liveGameId = gid, prize_place = place,
      prize_amount = a\<rparr>"

text \<open>
  One tournament \<open>T1\<close> with the points table \<open>{1 \<mapsto> 50, 2 \<mapsto> 30, 3 \<mapsto> 20}\<close>. The service
  stores five schedules and answers a schedule request by its filter: \<open>S1\<close> bears the
  misspelled field alone, \<open>S2\<close> and \<open>S3\<close> both fields, \<open>S3\<close> with a date that is no date,
  \<open>S4\<close> belongs to another tournament, and \<open>S5\<close> bears the correctly spelled field alone.
  Four played games, the last without a schedule; prizes recorded for first place only,
  the one of game \<open>G2\<close> being 0.
\<close>

definition ex_schedules :: "TournamentSchedule list" where
  "ex_schedules =
     [ex_schedule ''S1'' None (Some ''T1'') (Some ''2024-03-01''),
      ex_schedule ''S2'' (Some ''T1'') (Some ''T1'') (Some ''2024-01-01''),
      ex_schedule ''S3'' (Some ''T1'') (Some ''T1'') (Some ''TBD''),
      ex_schedule ''S4'' (Some ''T2'') (Some ''T2'') (Some ''2024-02-01''),
      ex_schedule ''S5'' (Some ''T1'') None (Some ''2024-04-01'')]"

definition ex_be :: backend where
  "ex_be =
     \<lparr>fetch_tournament =
        [\<lparr>t_id = ''T1'', t_orgId = ''ORG'', t_name = ''League'', t_pointsId = ''P1''\<rparr>],
      fetch_tournament_schedule = schedule_service ex_schedules,
      fetch_live_game = (\<lambda>t.
        [ex_game ''G1'' (Some ''S1'') (Some 500), ex_game ''G2'' (Some ''S2'') None,
         ex_game ''G3'' (Some ''S3'') None, ex_game ''G4'' None None]),
      fetch_live_players = (\<lambda>t.
        [ex_row ''G1'' ''b'' (Num 2), ex_row ''G1'' ''a'' (Num 1), ex_row ''G1'' ''c'' (Num 999),
         ex_row ''G1'' ''d'' Undefined, ex_row ''G1'' ''e'' (Num 0),
         ex_row ''G3'' ''a'' (Num 2), ex_row ''G2'' ''a'' (Num 4),
         ex_row ''G2'' ''b'' (Num 1), ex_row ''G4'' ''b'' (Num 1)]),
      fetch_player = [ex_player ''a'' ''Ann'' ''Ace'', ex_player ''b'' ''Bob'' ''Bet''],
      fetch_tournament_players = (\<lambda>t.
        [ex_standing ''a'' (Some 480) (Some 12) (Some 100),
         ex_standing ''b'' (Some 300) (Some 10) (Some 250),
         ex_standing ''z'' None (Some 0) None]),
      fetch_point_level = (\<lambda>p. [ex_level 1 50, ex_level 2 30, ex_level 3 20]),
      fetch_live_prizes = (\<lambda>t. [ex_prize ''G1'' 1 100, ex_prize ''G2'' 1 0])\<rparr>"

definition ex_tournament :: Tournament where
  "ex_tournament = \<lparr>t_id = ''T1'', t_orgId = ''ORG'', t_name = ''League'', t_pointsId = ''P1''\<rparr>"

definition ex_entry_a :: LeaderboardEntry where
  "ex_entry_a = ex_entry ''a'' 1 480 100"

definition ex_entry_b :: LeaderboardEntry where
  "ex_entry_b = ex_entry ''b'' 2 300 250"

definition ex_getTime :: "string \<Rightarrow> number" where
  "ex_getTime s =
     (if s = ''2024-01-01'' then Finite 1704067200000
      else if s = ''2024-03-01'' then Finite 1709251200000
      else NaN)"

section \<open>The sort model on consistent comparators\<close>

lemma js_insert_key:
  assumes "\<forall>y \<in> set xs. c x y = Finite (k x - k y)"
  shows "js_insert c x xs = insort_key k x xs"
  using assms by (induction xs) auto

lemma js_sort_key:
  assumes "\<forall>x \<in> set xs. \<forall>y \<in> set xs. c x y = Finite (k x - k y)"
  shows "js_sort c xs = sort_key k xs"
  using assms unfolding js_sort_def
proof (induction xs)
  case Nil
  then show ?case by simp
next
  case (Cons a xs)
  have "foldr (js_insert c) xs [] = sort_key k xs"
    using Cons by simp
  moreover have "\<forall>y \<in> set (sort_key k xs). c a y = Finite (k a - k y)"
    using Cons.prems by simp
  ultimately show ?case
    by (simp add: js_insert_key)
qed

lemma mset_js_insert: "mset (js_insert c x xs) = add_mset x (mset xs)"
  by (induction xs) auto

lemma mset_js_sort: "mset (js_sort c xs) = mset xs"
  unfolding js_sort_def by (induction xs) (auto simp: mset_js_insert)

lemma sorted_desc:
  "sorted (map (\<lambda>e. - (k e :: rat)) xs) = sorted_wrt (\<lambda>a b. k b \<le> k a) xs"
  by (simp add: sorted_map)

section \<open>Leaderboard ranking\<close>

lemma metric_field:
  "metric points e = e_totalPoints e" "metric winnings e = e_totalWinnings e"
  "metric knockouts e = e_totalKnockouts e" "metric bounties e = e_totalBounties e"
  by simp_all

lemma getSortedLeaderboard_sort_key:
  "getSortedLeaderboard st = sort_key (\<lambda>e. - metric (view st) e) (leaderboard st)"
  unfolding getSortedLeaderboard_def Let_def
  by (cases "view st") (simp_all add: js_sort_key del: metric.simps)


text \<open>
  C9. Sorting is idempotent: a leaderboard already in descending order of the chosen
  metric is returned unchanged, and so is the output of a sort when it is sorted again by
  the same criterion.
\<close>

theorem getSortedLeaderboard_idempotent:
  "(sorted_wrt (\<lambda>a b. metric (view st) b \<le> metric (view st) a) (leaderboard st)
      \<longrightarrow> getSortedLeaderboard st = leaderboard st)
   \<and> getSortedLeaderboard (st\<lparr>leaderboard := getSortedLeaderboard st\<rparr>) = getSortedLeaderboard st"
proof -
  let ?k = "\<lambda>e. - metric (view st) e"
  have a: "getSortedLeaderboard s = leaderboard s"
    if "sorted_wrt (\<lambda>a b. metric (view s) b \<le> metric (view s) a) (leaderboard s)" for s
    using that by (simp add: getSortedLeaderboard_sort_key sort_key_id_if_sorted sorted_desc)
  have "sorted (map ?k (getSortedLeaderboard st))"
    by (simp add: getSortedLeaderboard_sort_key)
  then have "sorted_wrt (\<lambda>a b. metric (view st) b \<le> metric (view st) a) (getSortedLeaderboard st)"
    by (simp only: sorted_desc)
  then have "getSortedLeaderboard (st\<lparr>leaderboard := getSortedLeaderboard st\<rparr>) = getSortedLeaderboard st"
    using a [of "st\<lparr>leaderboard := getSortedLeaderboard st\<rparr>"] by simp
  with a [of st] show ?thesis by blast
qed

theorem getSortedLeaderboard_idempotent_witness:
  "sorted_wrt (\<lambda>a b. metric (view ex_board) b \<le> metric (view ex_board) a) (leaderboard ex_board)
   \<and> getSortedLeaderboard ex_board = leaderboard ex_board"
  using getSortedLeaderboard_idempotent [of ex_board]
  by (simp add: ex_board_def ex_entry_def)

section \<open>Lookup maps\<close>

lemma build_map_find:
  "build_map key val xs k =
     (case find (\<lambda>x. key x = k) (rev xs) of None \<Rightarrow> None | Some x \<Rightarrow> Some (val x))"
  unfolding build_map_def
  by (induction xs rule: rev_induct) simp_all

lemma build_map_None: "(build_map key val xs k = None) = (\<forall>x \<in> set xs. key x \<noteq> k)"
proof -
  have "(build_map key val xs k = None) = (find (\<lambda>x. key x = k) (rev xs) = None)"
    by (simp add: build_map_find split: option.split)
  then show ?thesis by (auto simp: find_None_iff)
qed

lemma find_filter: "find Q (filter P xs) = find (\<lambda>x. P x \<and> Q x) xs"
  by (induction xs) auto

lemma find_map: "find P (map f xs) = map_option f (find (\<lambda>x. P (f x)) xs)"
  by (induction xs) simp_all

subsection \<open>The prize key determines the game and the place\<close>

lemma lt10:
  "d < (10::nat) \<Longrightarrow>
     d = 0 \<or> d = 1 \<or> d = 2 \<or> d = 3 \<or> d = 4 \<or> d = 5 \<or> d = 6 \<or> d = 7 \<or> d = 8 \<or> d = 9"
  by arith

lemma digit_char_in:
  assumes "d < 10"
  shows "digit_char d \<in> set ''0123456789''"
  using lt10 [OF assms] unfolding digit_char_def by (elim disjE; simp)

lemma digit_char_inj:
  assumes "a < 10" "b < 10" "digit_char a = digit_char b"
  shows "a = b"
  using lt10 [OF assms(1)] lt10 [OF assms(2)] assms(3) unfolding digit_char_def
  by (elim disjE; simp)

lemma digits_set: "set (digits n) \<subseteq> set ''0123456789''"
proof (induction n rule: digits.induct)
  case (1 n)
  show ?case
  proof (cases "n < 10")
    case True
    then show ?thesis
      using digit_char_in [of n] by (subst digits.simps) simp
  next
    case False
    have "n mod 10 < 10" by simp
    then have "digit_char (n mod 10) \<in> set ''0123456789''"
      by (rule digit_char_in)
    with False 1 show ?thesis
      by (subst digits.simps) simp
  qed
qed

lemma digits_nonempty: "digits n \<noteq> []"
  by (subst digits.simps) simp

lemma digits_inj: "digits m = digits n \<Longrightarrow> m = n"
proof (induction m arbitrary: n rule: digits.induct)
  case (1 m)
  show ?case
  proof (cases "m < 10")
    case m: True
    show ?thesis
    proof (cases "n < 10")
      case True
      with m 1(2) have "digit_char m = digit_char n"
        by (subst (asm) digits.simps, subst (asm) (2) digits.simps) simp
      with m True show ?thesis by (rule digit_char_inj)
    next
      case False
      with m 1(2) have "[digit_char m] = digits (n div 10) @ [digit_char (n mod 10)]"
        by (subst (asm) digits.simps, subst (asm) (2) digits.simps) simp
      then show ?thesis using digits_nonempty [of "n div 10"] by simp
    qed
  next
    case m: False
    show ?thesis
    proof (cases "n < 10")
      case True
      with m 1(2) have "digits (m div 10) @ [digit_char (m mod 10)] = [digit_char n]"
        by (subst (asm) digits.simps, subst (asm) (2) digits.simps) simp
      then show ?thesis using digits_nonempty [of "m div 10"] by simp
    next
      case False
      with m 1(2) have e: "digits (m div 10) @ [digit_char (m mod 10)]
                            = digits (n div 10) @ [digit_char (n mod 10)]"
        by (subst (asm) digits.simps, subst (asm) (2) digits.simps) simp
      then have "digits (m div 10) = digits (n div 10)" by simp
      with 1(1) m have d: "m div 10 = n div 10" by simp
      from e have "digit_char (m mod 10) = digit_char (n mod 10)" by simp
      then have "m mod 10 = n mod 10" by (intro digit_char_inj) simp_all
      with d show ?thesis by (metis div_mult_mod_eq)
    qed
  qed
qed

lemma digits_notin: "c \<notin> set ''0123456789'' \<Longrightarrow> c \<notin> set (digits n)"
  using digits_set [of n] by blast

lemma digits_no_minus: "CHR ''-'' \<notin> set (digits n)"
  by (rule digits_notin) simp

lemma digits_no_underscore: "CHR ''_'' \<notin> set (digits n)"
  by (rule digits_notin) simp

lemma digits_no_u: "CHR ''u'' \<notin> set (digits n)"
  by (rule digits_notin) simp

lemma digits_not_minus_Cons: "digits n \<noteq> CHR ''-'' # cs"
  using digits_no_minus [of n] by (metis list.set_intros(1))

lemma String_int_inj:
  assumes e: "String_int i = String_int j"
  shows "i = j"
proof (cases "i < 0")
  case i: True
  show ?thesis
  proof (cases "j < 0")
    case True
    with i e have "digits (nat (- i)) = digits (nat (- j))"
      by (simp add: String_int_def)
    then have "nat (- i) = nat (- j)" by (rule digits_inj)
    with i True show ?thesis by simp
  next
    case False
    with i e have "digits (nat j) = CHR ''-'' # digits (nat (- i))"
      by (simp add: String_int_def)
    with digits_not_minus_Cons show ?thesis by blast
  qed
next
  case i: False
  show ?thesis
  proof (cases "j < 0")
    case True
    with i e have "digits (nat i) = CHR ''-'' # digits (nat (- j))"
      by (simp add: String_int_def)
    with digits_not_minus_Cons show ?thesis by blast
  next
    case False
    with i e have "digits (nat i) = digits (nat j)"
      by (simp add: String_int_def)
    then have "nat i = nat j" by (rule digits_inj)
    with i False show ?thesis by simp
  qed
qed

lemma String_int_no_underscore: "CHR ''_'' \<notin> set (String_int i)"
  by (simp add: String_int_def digits_no_underscore)

lemma String_int_no_u: "CHR ''u'' \<notin> set (String_int i)"
  by (simp add: String_int_def digits_no_u)

lemma toString_inj:
  assumes e: "toString a = toString b"
  shows "a = b"
proof (cases a)
  case Undefined
  show ?thesis
  proof (cases b)
    case (Num j)
    with Undefined e have "String_int j = ''undefined''" by simp
    with String_int_no_u [of j] show ?thesis by simp
  qed (use Undefined e in simp_all)
next
  case Null
  show ?thesis
  proof (cases b)
    case (Num j)
    with Null e have "String_int j = ''null''" by simp
    with String_int_no_u [of j] show ?thesis by simp
  qed (use Null e in simp_all)
next
  case (Num i)
  show ?thesis
  proof (cases b)
    case Undefined
    with Num e have "String_int i = ''undefined''" by simp
    with String_int_no_u [of i] show ?thesis by simp
  next
    case Null
    with Num e have "String_int i = ''null''" by simp
    with String_int_no_u [of i] show ?thesis by simp
  next
    case (Num j)
    with \<open>a = Num i\<close> e String_int_inj show ?thesis by simp
  qed
qed

lemma toString_no_underscore: "CHR ''_'' \<notin> set (toString a)"
  by (cases a) (simp_all add: String_int_no_underscore)

lemma takeWhile_rev_sep:
  "c \<notin> set ys \<Longrightarrow> takeWhile (\<lambda>x. x \<noteq> c) (rev (xs @ c # ys)) = rev ys"
  by (auto simp: takeWhile_tail)

lemma sep_unique:
  assumes e: "xs @ c # ys = xs' @ c # ys'" and "c \<notin> set ys" "c \<notin> set ys'"
  shows "xs = xs' \<and> ys = ys'"
proof -
  have "rev ys = takeWhile (\<lambda>x. x \<noteq> c) (rev (xs @ c # ys))"
    using assms(2) by (rule takeWhile_rev_sep [symmetric])
  also have "\<dots> = takeWhile (\<lambda>x. x \<noteq> c) (rev (xs' @ c # ys'))"
    by (simp only: e)
  also have "\<dots> = rev ys'"
    using assms(3) by (rule takeWhile_rev_sep)
  finally have "ys = ys'" by simp
  with e show ?thesis by simp
qed

lemma prizeKey_inj:
  assumes "prizeKey g p = prizeKey g' p'"
  shows "g = g' \<and> p = p'"
proof -
  from assms have "g @ CHR ''_'' # toString p = g' @ CHR ''_'' # toString p'"
    by (simp add: prizeKey_def)
  then have "g = g' \<and> toString p = toString p'"
    by (rule sep_unique) (rule toString_no_underscore)+
  then show ?thesis using toString_inj by blast
qed

lemma prizeKey_eq_iff: "(prizeKey g p = prizeKey g' p') = (g = g' \<and> p = p')"
  using prizeKey_inj by blast

lemma prizeMap_None:
  "(prizeMap_of livePrizes (prizeKey g p) = None)
     = (\<forall>prize \<in> set livePrizes. \<not> (prize_liveGameId prize = g \<and> Num (prize_place prize) = p))"
  by (simp add: prizeMap_of_def build_map_None prizeKey_eq_iff)

lemma prizeMap_last:
  assumes "find (\<lambda>prize. prize_liveGameId prize = g \<and> Num (prize_place prize) = p) (rev livePrizes)
             = Some prize"
  shows "prizeMap_of livePrizes (prizeKey g p) = Some (prize_amount prize)"
  using assms by (simp add: prizeMap_of_def build_map_find prizeKey_eq_iff)

lemma calculatedPoints_unmapped:
  assumes "\<forall>level \<in> set pointLevels. Num (level_levelNum level) \<noteq> position"
  shows "calculatedPoints (pointLevelMap_of pointLevels) position = 0"
proof -
  have "pointLevelMap_of pointLevels position = None"
    using assms by (simp add: pointLevelMap_of_def build_map_None)
  then show ?thesis by (simp add: calculatedPoints_def)
qed

lemma pointLevelMap_last:
  assumes "find (\<lambda>l. Num (level_levelNum l) = position) (rev pointLevels) = Some level"
  shows "pointLevelMap_of pointLevels position = Some (level_amount level)"
  using assms by (simp add: pointLevelMap_of_def build_map_find)

section \<open>The example, evaluated\<close>

lemmas api_defs = getTournaments_def getTournamentSchedule_def getLiveGames_def getLivePlayers_def
  getPlayers_def getTournamentPlayers_def getPointLevels_def getLivePrizes_def

lemmas ex_defs = ex_be_def ex_player_def ex_standing_def ex_schedule_def ex_schedules_def
  ex_game_def ex_row_def ex_level_def ex_prize_def ex_getTime_def schedule_service_def
  schedule_field_def

lemmas eval_defs = api_defs ex_defs Let_def build_map_def pointLevelMap_of_def prizeMap_of_def
  prizeKey_def String_int_def digits.simps digit_char_def pointLevels_of_def truthy_str_def
  calculatedPoints_def historyEntry_of_def historyEntry_def gameResult_of_def gameResult_def

lemma ex_row_sel:
  "lp_playerId (ex_row g p x) = p" "lp_liveGameId (ex_row g p x) = g" "lp_placed (ex_row g p x) = x"
  by (simp_all add: ex_row_def)

lemma ex_find_tournament:
  "find (\<lambda>t. t_id t = ''T1'') (getTournaments ex_be ''ORG'') = Some ex_tournament"
  by (simp add: getTournaments_def ex_be_def ex_tournament_def)

lemma ex_pointLevels:
  "pointLevels_of ex_be (Some ex_tournament) = [ex_level 1 50, ex_level 2 30, ex_level 3 20]"
  "pointLevels_of ex_be (find (\<lambda>t. t_id t = ''T1'') (getTournaments ex_be ''ORG''))
     = [ex_level 1 50, ex_level 2 30, ex_level 3 20]"
  by (simp_all add: ex_find_tournament)
     (simp_all add: pointLevels_of_def ex_tournament_def truthy_str_def getPointLevels_def ex_be_def)

lemma ex_history_rows:
  "historyEntry_of ex_be ''ORG'' ''T1'' ex_tournament (ex_row ''G1'' ''a'' (Num 1))
   = \<lparr>h_gameDate = ''2024-03-01'', h_gameNumber = None, h_position = Num 1, h_points = 50,
      h_prizeMoney = Some 100\<rparr>"
  "historyEntry_of ex_be ''ORG'' ''T1'' ex_tournament (ex_row ''G3'' ''a'' (Num 2))
   = \<lparr>h_gameDate = ''TBD'', h_gameNumber = None, h_position = Num 2, h_points = 30,
      h_prizeMoney = None\<rparr>"
  "historyEntry_of ex_be ''ORG'' ''T1'' ex_tournament (ex_row ''G2'' ''a'' (Num 4))
   = \<lparr>h_gameDate = ''2024-01-01'', h_gameNumber = None, h_position = Num 4, h_points = 0,
      h_prizeMoney = None\<rparr>"
  "historyEntry_of ex_be ''ORG'' ''T1'' ex_tournament (ex_row ''G1'' ''b'' (Num 2))
   = \<lparr>h_gameDate = ''2024-03-01'', h_gameNumber = None, h_position = Num 2, h_points = 30,
      h_prizeMoney = None\<rparr>"
  "historyEntry_of ex_be ''ORG'' ''T1'' ex_tournament (ex_row ''G2'' ''b'' (Num 1))
   = \<lparr>h_gameDate = ''2024-01-01'', h_gameNumber = None, h_position = Num 1, h_points = 50,
      h_prizeMoney = Some 0\<rparr>"
  "historyEntry_of ex_be ''ORG'' ''T1'' ex_tournament (ex_row ''G4'' ''b'' (Num 1))
   = \<lparr>h_gameDate = [], h_gameNumber = None, h_position = Num 1, h_points = 50,
      h_prizeMoney = None\<rparr>"
  by (simp_all add: eval_defs ex_tournament_def)

lemma ex_result_rows_G2:
  "gameResult_of ex_be ''ORG'' ''T1'' (ex_game ''G2'' (Some ''S2'') None) (ex_row ''G2'' ''a'' (Num 4))
   = \<lparr>r_position = 4, r_playerName = ''Ann Ace'', r_points = 0, r_prizeMoney = 0\<rparr>"
  "gameResult_of ex_be ''ORG'' ''T1'' (ex_game ''G2'' (Some ''S2'') None) (ex_row ''G2'' ''b'' (Num 1))
   = \<lparr>r_position = 1, r_playerName = ''Bob Bet'', r_points = 50, r_prizeMoney = 0\<rparr>"
  by (simp_all add: eval_defs)

lemma ex_result_rows_G1:
  "gameResult_of ex_be ''ORG'' ''T1'' (ex_game ''G1'' (Some ''S1'') (Some 500)) (ex_row ''G1'' ''b'' (Num 2))
   = \<lparr>r_position = 2, r_playerName = ''Bob Bet'', r_points = 30, r_prizeMoney = 0\<rparr>"
  "gameResult_of ex_be ''ORG'' ''T1'' (ex_game ''G1'' (Some ''S1'') (Some 500)) (ex_row ''G1'' ''a'' (Num 1))
   = \<lparr>r_position = 1, r_playerName = ''Ann Ace'', r_points = 50, r_prizeMoney = 100\<rparr>"
  "r_position (gameResult_of ex_be ''ORG'' ''T1'' (ex_game ''G1'' (Some ''S1'') (Some 500))
     (ex_row ''G1'' ''c'' (Num 999))) = 999"
  "r_position (gameResult_of ex_be ''ORG'' ''T1'' (ex_game ''G1'' (Some ''S1'') (Some 500))
     (ex_row ''G1'' ''d'' Undefined)) = 999"
  "r_position (gameResult_of ex_be ''ORG'' ''T1'' (ex_game ''G1'' (Some ''S1'') (Some 500))
     (ex_row ''G1'' ''e'' (Num 0))) = 999"
  by (simp_all add: eval_defs)

section \<open>Points and prize resolution\<close>

text \<open>
  C1. When the finishing position of a participation has no entry in the tournament's
  point levels, the points resolved for it are 0, in the game history and in the
  single-game results alike; this covers a position that is absent or \<^verbatim>\<open>null\<close>. When
  the position has an entry, the lookup in the levels map yields the amount of that entry
  (the last one, should the table list the position twice), and for a position other than
  0 that amount is the points resolved.
\<close>

theorem points_zero_when_unmapped:
  "((\<forall>level \<in> set (pointLevels_of be (Some tournament)). Num (level_levelNum level) \<noteq> lp_placed pg)
      \<longrightarrow> h_points (historyEntry_of be org tournamentId tournament pg) = 0)
   \<and> ((\<forall>level \<in> set (pointLevels_of be (find (\<lambda>t. t_id t = tournamentId) (getTournaments be org))).
          Num (level_levelNum level) \<noteq> lp_placed pg)
      \<longrightarrow> r_points (gameResult_of be org tournamentId game pg) = 0)
   \<and> (find (\<lambda>l. Num (level_levelNum l) = position) (rev pointLevels) = Some level
      \<longrightarrow> pointLevelMap_of pointLevels position = Some (level_amount level)
        \<and> (truthy position
             \<longrightarrow> calculatedPoints (pointLevelMap_of pointLevels) position = level_amount level))"
proof -
  have a: "h_points (historyEntry_of be org tournamentId tournament pg) = 0"
    if "\<forall>level \<in> set (pointLevels_of be (Some tournament)). Num (level_levelNum level) \<noteq> lp_placed pg"
    using calculatedPoints_unmapped [OF that]
    by (simp add: historyEntry_of_def historyEntry_def Let_def)
  have b: "r_points (gameResult_of be org tournamentId game pg) = 0"
    if "\<forall>level \<in> set (pointLevels_of be (find (\<lambda>t. t_id t = tournamentId) (getTournaments be org))).
          Num (level_levelNum level) \<noteq> lp_placed pg"
    using calculatedPoints_unmapped [OF that]
    by (simp add: gameResult_of_def gameResult_def Let_def)
  have c: "pointLevelMap_of pointLevels position = Some (level_amount level)
        \<and> (truthy position
             \<longrightarrow> calculatedPoints (pointLevelMap_of pointLevels) position = level_amount level)"
    if "find (\<lambda>l. Num (level_levelNum l) = position) (rev pointLevels) = Some level"
    using pointLevelMap_last [OF that] by (simp add: calculatedPoints_def)
  from a b c show ?thesis by blast
qed

theorem points_zero_when_unmapped_witness:
  "h_points (historyEntry_of ex_be ''ORG'' ''T1'' ex_tournament (ex_row ''G2'' ''a'' (Num 4))) = 0
   \<and> r_points (gameResult_of ex_be ''ORG'' ''T1'' (ex_game ''G2'' (Some ''S2'') None)
                 (ex_row ''G2'' ''a'' (Num 4))) = 0
   \<and> pointLevelMap_of [ex_level 1 50, ex_level 2 30, ex_level 3 20] (Num 2) = Some 30
   \<and> calculatedPoints (pointLevelMap_of [ex_level 1 50, ex_level 2 30, ex_level 3 20]) (Num 2) = 30"
proof -
  have a: "\<forall>level \<in> set [ex_level 1 50, ex_level 2 30, ex_level 3 20].
             Num (level_levelNum level) \<noteq> lp_placed (ex_row ''G2'' ''a'' (Num 4))"
    by (simp add: ex_level_def ex_row_sel)
  have b: "find (\<lambda>l. Num (level_levelNum l) = Num 2) (rev [ex_level 1 50, ex_level 2 30, ex_level 3 20])
             = Some (ex_level 2 30)"
    by (simp add: ex_level_def)
  have c: "level_amount (ex_level 2 30) = 30"
    by (simp add: ex_level_def)
  show ?thesis
    using points_zero_when_unmapped [where be = ex_be and tournament = ex_tournament
        and pg = "ex_row ''G2'' ''a'' (Num 4)" and tournamentId = "''T1''" and org = "''ORG''"
        and game = "ex_game ''G2'' (Some ''S2'') None" and position = "Num 2"
        and pointLevels = "[ex_level 1 50, ex_level 2 30, ex_level 3 20]"
        and level = "ex_level 2 30"] a b c
    by (simp only: ex_pointLevels simp_thms truthy.simps)
qed

text \<open>
  C2, as the claim states it, fails in the single-game results: game \<open>G2\<close> of the example
  has a recorded first prize of 0 and no record for fourth place, and both rows resolve to
  the prize 0.
\<close>

theorem gameResult_prize_absent_equals_zero_prize:
  "ex_prize ''G2'' 1 0 \<in> set (getLivePrizes ex_be ''T1'')
   \<and> r_prizeMoney (gameResult_of ex_be ''ORG'' ''T1'' (ex_game ''G2'' (Some ''S2'') None)
                     (ex_row ''G2'' ''b'' (Num 1))) = 0
   \<and> r_prizeMoney (gameResult_of ex_be ''ORG'' ''T1'' (ex_game ''G2'' (Some ''S2'') None)
                     (ex_row ''G2'' ''a'' (Num 4))) = 0"
  by (simp add: ex_result_rows_G2) (simp add: getLivePrizes_def ex_be_def)

text \<open>
  C2, amended. In the game history a participation with no prize record for its played
  game and position resolves to no prize (\<^verbatim>\<open>undefined\<close>), and one with a record
  resolves to the recorded amount, so a recorded 0 stays apart from no prize. In the
  single-game results the prize is a number: no record resolves to 0, and a record resolves
  to its amount, so a recorded 0 and no record read the same. Where the prizes list a game
  and place twice, the last record counts.
\<close>

theorem prize_resolution:
  "((\<forall>prize \<in> set (getLivePrizes be tournamentId).
        \<not> (prize_liveGameId prize = lp_liveGameId pg \<and> Num (prize_place prize) = lp_placed pg))
      \<longrightarrow> h_prizeMoney (historyEntry_of be org tournamentId tournament pg) = None)
   \<and> (find (\<lambda>prize. prize_liveGameId prize = lp_liveGameId pg \<and> Num (prize_place prize) = lp_placed pg)
         (rev (getLivePrizes be tournamentId)) = Some prize
      \<longrightarrow> h_prizeMoney (historyEntry_of be org tournamentId tournament pg) = Some (prize_amount prize))
   \<and> ((\<forall>prize \<in> set (getLivePrizes be tournamentId).
        \<not> (prize_liveGameId prize = g_id game \<and> Num (prize_place prize) = lp_placed pg))
      \<longrightarrow> r_prizeMoney (gameResult_of be org tournamentId game pg) = 0)
   \<and> (find (\<lambda>prize. prize_liveGameId prize = g_id game \<and> Num (prize_place prize) = lp_placed pg)
         (rev (getLivePrizes be tournamentId)) = Some prize
      \<longrightarrow> r_prizeMoney (gameResult_of be org tournamentId game pg) = prize_amount prize)"
proof -
  let ?ps = "getLivePrizes be tournamentId"
  let ?gs = "filter (\<lambda>prize. prize_liveGameId prize = g_id game) ?ps"
  have a: "h_prizeMoney (historyEntry_of be org tournamentId tournament pg) = None"
    if "\<forall>prize \<in> set ?ps.
        \<not> (prize_liveGameId prize = lp_liveGameId pg \<and> Num (prize_place prize) = lp_placed pg)"
    using that by (simp add: historyEntry_of_def historyEntry_def Let_def prizeMap_None)
  have b: "h_prizeMoney (historyEntry_of be org tournamentId tournament pg) = Some (prize_amount prize)"
    if "find (\<lambda>prize. prize_liveGameId prize = lp_liveGameId pg \<and> Num (prize_place prize) = lp_placed pg)
         (rev ?ps) = Some prize"
    using prizeMap_last [OF that] by (simp add: historyEntry_of_def historyEntry_def Let_def)
  have c: "r_prizeMoney (gameResult_of be org tournamentId game pg) = 0"
    if "\<forall>prize \<in> set ?ps.
        \<not> (prize_liveGameId prize = g_id game \<and> Num (prize_place prize) = lp_placed pg)"
  proof -
    from that have "prizeMap_of ?gs (prizeKey (g_id game) (lp_placed pg)) = None"
      by (simp add: prizeMap_None)
    then show ?thesis
      by (simp add: gameResult_of_def gameResult_def Let_def)
  qed
  have d: "r_prizeMoney (gameResult_of be org tournamentId game pg) = prize_amount prize"
    if "find (\<lambda>prize. prize_liveGameId prize = g_id game \<and> Num (prize_place prize) = lp_placed pg)
         (rev ?ps) = Some prize"
  proof -
    have "find (\<lambda>prize. prize_liveGameId prize = g_id game \<and> Num (prize_place prize) = lp_placed pg)
            (rev ?gs) = Some prize"
      using that by (simp add: rev_filter find_filter)
    then have "prizeMap_of ?gs (prizeKey (g_id game) (lp_placed pg)) = Some (prize_amount prize)"
      by (rule prizeMap_last)
    then show ?thesis
      by (simp add: gameResult_of_def gameResult_def Let_def)
  qed
  from a b c d show ?thesis by blast
qed

theorem prize_resolution_witness:
  "h_prizeMoney (historyEntry_of ex_be ''ORG'' ''T1'' ex_tournament (ex_row ''G2'' ''a'' (Num 4))) = None
   \<and> h_prizeMoney (historyEntry_of ex_be ''ORG'' ''T1'' ex_tournament (ex_row ''G2'' ''b'' (Num 1))) = Some 0
   \<and> r_prizeMoney (gameResult_of ex_be ''ORG'' ''T1'' (ex_game ''G2'' (Some ''S2'') None)
                     (ex_row ''G2'' ''a'' (Num 4))) = 0
   \<and> r_prizeMoney (gameResult_of ex_be ''ORG'' ''T1'' (ex_game ''G2'' (Some ''S2'') None)
                     (ex_row ''G2'' ''b'' (Num 1))) = 0"
proof -
  have n: "\<forall>prize \<in> set (getLivePrizes ex_be ''T1'').
             \<not> (prize_liveGameId prize = ''G2'' \<and> Num (prize_place prize) = Num 4)"
    by (simp add: getLivePrizes_def ex_be_def ex_prize_def)
  have f: "find (\<lambda>prize. prize_liveGameId prize = ''G2'' \<and> Num (prize_place prize) = Num 1)
             (rev (getLivePrizes ex_be ''T1'')) = Some (ex_prize ''G2'' 1 0)"
    by (simp add: getLivePrizes_def ex_be_def ex_prize_def)
  have g: "g_id (ex_game ''G2'' (Some ''S2'') None) = ''G2''" "prize_amount (ex_prize ''G2'' 1 0) = 0"
    by (simp_all add: ex_game_def ex_prize_def)
  from prize_resolution [where be = ex_be and tournamentId = "''T1''"
      and pg = "ex_row ''G2'' ''a'' (Num 4)" and tournament = ex_tournament
      and prize = "ex_prize ''G2'' 1 0" and game = "ex_game ''G2'' (Some ''S2'') None"
      and org = "''ORG''"] n
  have 1: "h_prizeMoney (historyEntry_of ex_be ''ORG'' ''T1'' ex_tournament (ex_row ''G2'' ''a'' (Num 4))) = None"
    and 2: "r_prizeMoney (gameResult_of ex_be ''ORG'' ''T1'' (ex_game ''G2'' (Some ''S2'') None)
                     (ex_row ''G2'' ''a'' (Num 4))) = 0"
    by (simp_all add: ex_row_sel g)
  from prize_resolution [where be = ex_be and tournamentId = "''T1''"
      and pg = "ex_row ''G2'' ''b'' (Num 1)" and tournament = ex_tournament
      and prize = "ex_prize ''G2'' 1 0" and game = "ex_game ''G2'' (Some ''S2'') None"
      and org = "''ORG''"] f
  have 3: "h_prizeMoney (historyEntry_of ex_be ''ORG'' ''T1'' ex_tournament (ex_row ''G2'' ''b'' (Num 1))) = Some 0"
    and 4: "r_prizeMoney (gameResult_of ex_be ''ORG'' ''T1'' (ex_game ''G2'' (Some ''S2'') None)
                     (ex_row ''G2'' ''b'' (Num 1))) = 0"
    by (simp_all add: ex_row_sel g)
  from 1 2 3 4 show ?thesis by simp
qed

section \<open>Player game history\<close>

text \<open>
  The date of a history entry is the date of the schedule its played game links to: the
  last played game with the row's \<^verbatim>\<open>liveGameId\<close>, then the last schedule with that game's
  \<^verbatim>\<open>scheduleId\<close>; it is empty when a link or the date is missing.
\<close>

lemma historyEntry_of_gameDate:
  "h_gameDate (historyEntry_of be org tournamentId tournament pg) =
     (case find (\<lambda>g. g_id g = lp_liveGameId pg) (rev (getLiveGames be tournamentId)) of
        None \<Rightarrow> []
      | Some g \<Rightarrow>
          (case g_scheduleId g of
             None \<Rightarrow> []
           | Some sid \<Rightarrow>
               if sid = [] then []
               else (case find (\<lambda>s. s_id s = sid) (rev (getTournamentSchedule be org tournamentId)) of
                       None \<Rightarrow> []
                     | Some s \<Rightarrow> (case s_date s of None \<Rightarrow> [] | Some d \<Rightarrow> d))))"
  by (simp add: historyEntry_of_def historyEntry_def Let_def build_map_find truthy_str_def
      split: option.split)

lemma num_sub_valid:
  "getTime a \<noteq> NaN \<Longrightarrow> getTime b \<noteq> NaN \<Longrightarrow>
     num_sub (getTime a) (getTime b) = Finite (time_value (getTime a) - time_value (getTime b))"
  by (cases "getTime a"; cases "getTime b") simp_all

lemma compareDates_valid:
  "getTime (h_gameDate a) \<noteq> NaN \<Longrightarrow> getTime (h_gameDate b) \<noteq> NaN \<Longrightarrow>
     compareDates getTime a b = Finite (gameTime getTime a - gameTime getTime b)"
  by (simp add: compareDates_def gameTime_def num_sub_valid)

lemma consistent_compareDates:
  assumes "\<forall>h \<in> set hs. getTime (h_gameDate h) \<noteq> NaN"
  shows "consistent (compareDates getTime) hs"
  unfolding consistent_def using assms by (auto simp: compareDates_valid)

lemma inconsistent_compareDates:
  assumes "h \<in> set hs" and "getTime (h_gameDate h) = NaN"
  shows "\<not> consistent (compareDates getTime) hs"
proof
  assume "consistent (compareDates getTime) hs"
  with assms(1) have "compareDates getTime h h \<noteq> NaN"
    unfolding consistent_def by blast
  with assms(2) show False
    by (simp add: compareDates_def)
qed

lemma array_sort_dates:
  assumes "\<forall>h \<in> set hs. getTime (h_gameDate h) \<noteq> NaN"
  shows "array_sort engine (compareDates getTime) hs = sort_key (gameTime getTime) hs"
proof -
  have "js_sort (compareDates getTime) hs = sort_key (gameTime getTime) hs"
    using assms by (intro js_sort_key) (simp add: compareDates_valid)
  with consistent_compareDates [OF assms] show ?thesis
    by (simp add: array_sort_def)
qed

lemma datedEntries_rows:
  "datedEntries be org player tournamentId tournament
     = map (historyEntry_of be org tournamentId tournament)
         (filter (\<lambda>pg. lp_playerId pg = e_playerId player
                       \<and> h_gameDate (historyEntry_of be org tournamentId tournament pg) \<noteq> [])
            (getLivePlayers be tournamentId))"
  by (simp add: datedEntries_def playerGames_of_def truthy_str_def filter_map comp_def conj_commute)

text \<open>
  What the resolver achieves. When the tournament is among the fetched tournaments and each
  non-empty date is a date, the history holds exactly the entries of the player's
  participation rows whose linked schedule yields a non-empty date, each row once, in
  ascending order of the time, entries of equal time in the order of the collection,
  whatever the engine. When the tournament is not found, the resolver throws and the
  history shown stays as it was.
\<close>

lemma playerHistory_valid_dates:
  assumes found: "find (\<lambda>t. t_id t = tournamentId) (getTournaments be org) = Some tournament"
    and valid: "\<forall>h \<in> set (datedEntries be org player tournamentId tournament).
                  getTime (h_gameDate h) \<noteq> NaN"
  shows "playerHistory engine getTime be org player tournamentId
           = Inr (gameHistory (loadPlayerHistory engine getTime be org player tournamentId st))"
    and "mset (gameHistory (loadPlayerHistory engine getTime be org player tournamentId st))
           = image_mset (historyEntry_of be org tournamentId tournament)
               (filter_mset (\<lambda>pg. lp_playerId pg = e_playerId player
                                 \<and> h_gameDate (historyEntry_of be org tournamentId tournament pg) \<noteq> [])
                  (mset (getLivePlayers be tournamentId)))"
    and "sorted (map (gameTime getTime)
           (gameHistory (loadPlayerHistory engine getTime be org player tournamentId st)))"
    and "filter (\<lambda>h. gameTime getTime h = t)
           (gameHistory (loadPlayerHistory engine getTime be org player tournamentId st))
         = filter (\<lambda>h. gameTime getTime h = t) (datedEntries be org player tournamentId tournament)"
proof -
  let ?rows = "datedEntries be org player tournamentId tournament"
  have p: "playerHistory engine getTime be org player tournamentId
             = Inr (sort_key (gameTime getTime) ?rows)"
    using found by (simp add: playerHistory_def array_sort_dates [OF valid])
  then have g: "gameHistory (loadPlayerHistory engine getTime be org player tournamentId st)
             = sort_key (gameTime getTime) ?rows"
    by (simp add: loadPlayerHistory_def)
  show "playerHistory engine getTime be org player tournamentId
           = Inr (gameHistory (loadPlayerHistory engine getTime be org player tournamentId st))"
    by (simp only: p g)
  show "mset (gameHistory (loadPlayerHistory engine getTime be org player tournamentId st))
           = image_mset (historyEntry_of be org tournamentId tournament)
               (filter_mset (\<lambda>pg. lp_playerId pg = e_playerId player
                                 \<and> h_gameDate (historyEntry_of be org tournamentId tournament pg) \<noteq> [])
                  (mset (getLivePlayers be tournamentId)))"
    unfolding g by (simp add: datedEntries_rows)
  show "sorted (map (gameTime getTime)
           (gameHistory (loadPlayerHistory engine getTime be org player tournamentId st)))"
    unfolding g by (rule sorted_sort_key)
  show "filter (\<lambda>h. gameTime getTime h = t)
           (gameHistory (loadPlayerHistory engine getTime be org player tournamentId st))
         = filter (\<lambda>h. gameTime getTime h = t) ?rows"
    unfolding g by (rule sort_key_stable)
qed

lemma playerHistory_not_found:
  assumes "find (\<lambda>t. t_id t = tournamentId) (getTournaments be org) = None"
  shows "playerHistory engine getTime be org player tournamentId = Inl ''Tournament not found''"
    and "gameHistory (loadPlayerHistory engine getTime be org player tournamentId st) = gameHistory st"
  using assms by (simp_all add: playerHistory_def loadPlayerHistory_def)

text \<open>
  As soon as one non-empty date is no date, the comparator is not consistent and the
  history is in the order the engine answers.
\<close>

lemma playerHistory_engine_order:
  assumes found: "find (\<lambda>t. t_id t = tournamentId) (getTournaments be org) = Some tournament"
    and "h \<in> set (datedEntries be org player tournamentId tournament)"
    and "getTime (h_gameDate h) = NaN"
  shows "gameHistory (loadPlayerHistory engine getTime be org player tournamentId st)
           = engine (compareDates getTime) (datedEntries be org player tournamentId tournament)"
  using found inconsistent_compareDates [where getTime = getTime, OF assms(2,3)]
  by (simp add: loadPlayerHistory_def playerHistory_def array_sort_def)

lemma ex_playerGames:
  "playerGames_of ex_be ex_entry_a ''T1'' =
     [ex_row ''G1'' ''a'' (Num 1), ex_row ''G3'' ''a'' (Num 2), ex_row ''G2'' ''a'' (Num 4)]"
  "playerGames_of ex_be ex_entry_b ''T1'' =
     [ex_row ''G1'' ''b'' (Num 2), ex_row ''G2'' ''b'' (Num 1), ex_row ''G4'' ''b'' (Num 1)]"
  by (simp_all add: playerGames_of_def getLivePlayers_def ex_be_def ex_entry_def ex_entry_a_def
      ex_entry_b_def ex_row_sel)

lemma ex_datedEntries_a:
  "datedEntries ex_be ''ORG'' ex_entry_a ''T1'' ex_tournament =
     [\<lparr>h_gameDate = ''2024-03-01'', h_gameNumber = None, h_position = Num 1, h_points = 50,
       h_prizeMoney = Some 100\<rparr>,
      \<lparr>h_gameDate = ''TBD'', h_gameNumber = None, h_position = Num 2, h_points = 30,
       h_prizeMoney = None\<rparr>,
      \<lparr>h_gameDate = ''2024-01-01'', h_gameNumber = None, h_position = Num 4, h_points = 0,
       h_prizeMoney = None\<rparr>]"
  by (simp add: datedEntries_def ex_playerGames ex_history_rows truthy_str_def)

lemma ex_datedEntries_b:
  "datedEntries ex_be ''ORG'' ex_entry_b ''T1'' ex_tournament =
     [\<lparr>h_gameDate = ''2024-03-01'', h_gameNumber = None, h_position = Num 2, h_points = 30,
       h_prizeMoney = None\<rparr>,
      \<lparr>h_gameDate = ''2024-01-01'', h_gameNumber = None, h_position = Num 1, h_points = 50,
       h_prizeMoney = Some 0\<rparr>]"
  by (simp add: datedEntries_def ex_playerGames ex_history_rows truthy_str_def)

text \<open>Player \<open>b\<close> of the example has dates only: January comes before March, whatever the engine.\<close>

lemma ex_history_b_sorted:
  "map h_gameDate (gameHistory (loadPlayerHistory engine ex_getTime ex_be ''ORG'' ex_entry_b
                                  ''T1'' initialPlayerDetailState))
     = [''2024-01-01'', ''2024-03-01'']"
proof -
  have v: "\<forall>h \<in> set (datedEntries ex_be ''ORG'' ex_entry_b ''T1'' ex_tournament).
             ex_getTime (h_gameDate h) \<noteq> NaN"
    by (simp add: ex_datedEntries_b ex_getTime_def)
  have "gameHistory (loadPlayerHistory engine ex_getTime ex_be ''ORG'' ex_entry_b
                                  ''T1'' initialPlayerDetailState)
          = sort_key (gameTime ex_getTime) (datedEntries ex_be ''ORG'' ex_entry_b ''T1'' ex_tournament)"
    by (simp add: loadPlayerHistory_def playerHistory_def ex_find_tournament array_sort_dates [OF v])
  then show ?thesis
    by (simp add: ex_datedEntries_b gameTime_def ex_getTime_def)
qed

text \<open>
  C3. The resolver breaks the claim where a date is not empty and is no date: the filter,
  commented \<^verbatim>\<open>Only include games with valid dates\<close>, keeps every non-empty string, and the
  comparator answers \<open>NaN\<close> wherever such a string takes part. Player \<open>a\<close> of the example
  played on 2024-03-01, on a day recorded as \<open>TBD\<close> and on 2024-01-01, in this order of the
  collection. All three entries reach the sort; the comparator answers \<open>NaN\<close> for March
  against \<open>TBD\<close> and for \<open>TBD\<close> against January, so the history is whatever the engine
  makes of an inconsistent comparator; and a sort that inserts, reading \<open>NaN\<close> as \<open>+0\<close>,
  leaves March before January.
\<close>

theorem playerHistory_unsorted_with_unparseable_date:
  "gameHistory (loadPlayerHistory engine ex_getTime ex_be ''ORG'' ex_entry_a ''T1''
                  initialPlayerDetailState)
     = engine (compareDates ex_getTime)
         [\<lparr>h_gameDate = ''2024-03-01'', h_gameNumber = None, h_position = Num 1, h_points = 50,
           h_prizeMoney = Some 100\<rparr>,
          \<lparr>h_gameDate = ''TBD'', h_gameNumber = None, h_position = Num 2, h_points = 30,
           h_prizeMoney = None\<rparr>,
          \<lparr>h_gameDate = ''2024-01-01'', h_gameNumber = None, h_position = Num 4, h_points = 0,
           h_prizeMoney = None\<rparr>]
   \<and> ex_getTime ''2024-03-01'' = Finite 1709251200000
   \<and> ex_getTime ''TBD'' = NaN
   \<and> ex_getTime ''2024-01-01'' = Finite 1704067200000
   \<and> map h_gameDate (gameHistory (loadPlayerHistory js_sort ex_getTime ex_be ''ORG'' ex_entry_a
                                    ''T1'' initialPlayerDetailState))
       = [''2024-03-01'', ''TBD'', ''2024-01-01'']"
proof -
  let ?tbd = "\<lparr>h_gameDate = ''TBD'', h_gameNumber = None, h_position = Num 2, h_points = 30,
               h_prizeMoney = None\<rparr>"
  have m: "?tbd \<in> set (datedEntries ex_be ''ORG'' ex_entry_a ''T1'' ex_tournament)"
    by (simp add: ex_datedEntries_a)
  have n: "ex_getTime (h_gameDate ?tbd) = NaN"
    by (simp add: ex_getTime_def)
  have e: "gameHistory (loadPlayerHistory eng ex_getTime ex_be ''ORG'' ex_entry_a ''T1''
                  initialPlayerDetailState)
             = eng (compareDates ex_getTime) (datedEntries ex_be ''ORG'' ex_entry_a ''T1'' ex_tournament)"
    for eng
    by (rule playerHistory_engine_order [where getTime = ex_getTime, OF ex_find_tournament m n])
  have j: "map h_gameDate (js_sort (compareDates ex_getTime)
             (datedEntries ex_be ''ORG'' ex_entry_a ''T1'' ex_tournament))
           = [''2024-03-01'', ''TBD'', ''2024-01-01'']"
    by (simp add: ex_datedEntries_a js_sort_def compareDates_def ex_getTime_def)
  show ?thesis
    by (simp add: e j) (simp add: ex_datedEntries_a ex_getTime_def)
qed

section \<open>Single-game results\<close>

lemma foldl_add_sum: "foldl (\<lambda>sum r. sum + f r) a xs = a + sum_list (map f xs)"
  for a :: rat
  by (induction xs arbitrary: a) simp_all

lemma or_999_keep: "(or_999 p \<noteq> 999) = (truthy p \<and> p \<noteq> Num 999)"
  by (cases p) auto

lemma or_999_nonzero: "or_999 p \<noteq> 0"
  by (cases p) auto

lemma or_999_as_missing: "or_999 (as_missing p) = or_999 p"
  by (cases p) auto

lemma as_missing_keep: "or_999 p \<noteq> 999 \<Longrightarrow> as_missing p = p"
  by (cases p) (auto split: if_splits)

lemma r_position_gameResult_of:
  "r_position (gameResult_of be org tournamentId game gp) = or_999 (lp_placed gp)"
  by (simp add: gameResult_of_def gameResult_def Let_def)

lemma gameResults_of_sort_key:
  "gameResults_of be org tournamentId game =
     sort_key (\<lambda>r. rat_of_int (r_position r))
       (map (gameResult_of be org tournamentId game)
          (filter (\<lambda>gp. lp_liveGameId gp = g_id game \<and> truthy (lp_placed gp) \<and> lp_placed gp \<noteq> Num 999)
             (getLivePlayers be tournamentId)))"
proof -
  have "filter (\<lambda>r. r_position r \<noteq> 999)
          (map (gameResult_of be org tournamentId game) (gamePlayers_of be tournamentId game))
        = map (gameResult_of be org tournamentId game)
          (filter (\<lambda>gp. lp_liveGameId gp = g_id game \<and> truthy (lp_placed gp) \<and> lp_placed gp \<noteq> Num 999)
             (getLivePlayers be tournamentId))"
    by (simp add: gamePlayers_of_def Let_def filter_map comp_def r_position_gameResult_of
        or_999_keep conj_commute conj_left_commute)
  then show ?thesis
    by (simp add: gameResults_of_def js_sort_key)
qed

lemma loadGameResults_found:
  assumes "find (\<lambda>g. g_scheduleId g = Some (s_id schedule)) (getLiveGames be tournamentId) = Some game"
  shows "g_scheduleId game = Some (s_id schedule)
       \<and> mset (results (loadGameResults be org schedule tournamentId st))
           = image_mset (gameResult_of be org tournamentId game)
               (filter_mset (\<lambda>gp. lp_liveGameId gp = g_id game
                                 \<and> truthy (lp_placed gp) \<and> lp_placed gp \<noteq> Num 999)
                  (mset (getLivePlayers be tournamentId)))
       \<and> sorted (map r_position (results (loadGameResults be org schedule tournamentId st)))
       \<and> (\<forall>p. filter (\<lambda>r. r_position r = p) (results (loadGameResults be org schedule tournamentId st))
              = filter (\<lambda>r. r_position r = p)
                  (map (gameResult_of be org tournamentId game)
                     (filter (\<lambda>gp. lp_liveGameId gp = g_id game
                                 \<and> truthy (lp_placed gp) \<and> lp_placed gp \<noteq> Num 999)
                        (getLivePlayers be tournamentId))))
       \<and> totalPrizePool (loadGameResults be org schedule tournamentId st)
           = sum_list (map r_prizeMoney (results (loadGameResults be org schedule tournamentId st)))"
proof -
  let ?rows = "filter (\<lambda>gp. lp_liveGameId gp = g_id game \<and> truthy (lp_placed gp) \<and> lp_placed gp \<noteq> Num 999)
                 (getLivePlayers be tournamentId)"
  let ?xs = "map (gameResult_of be org tournamentId game) ?rows"
  let ?k = "\<lambda>r. rat_of_int (r_position r)"
  have r: "results (loadGameResults be org schedule tournamentId st) = sort_key ?k ?xs"
    using assms by (simp add: loadGameResults_def Let_def gameResults_of_sort_key)
  have t: "totalPrizePool (loadGameResults be org schedule tournamentId st)
             = sum_list (map r_prizeMoney (sort_key ?k ?xs))"
    using assms by (simp add: loadGameResults_def Let_def gameResults_of_sort_key foldl_add_sum)
  have a: "g_scheduleId game = Some (s_id schedule)"
    using assms by (auto simp: find_Some_iff)
  have "sorted (map ?k (sort_key ?k ?xs))"
    by (rule sorted_sort_key)
  then have s: "sorted (map r_position (sort_key ?k ?xs))"
    by (simp add: sorted_map)
  have f: "filter (\<lambda>r. r_position r = p) (sort_key ?k ?xs) = filter (\<lambda>r. r_position r = p) ?xs" for p
    using sort_key_stable [of ?k "rat_of_int p" ?xs] by simp
  have m: "mset (sort_key ?k ?xs) = image_mset (gameResult_of be org tournamentId game)
               (filter_mset (\<lambda>gp. lp_liveGameId gp = g_id game
                                 \<and> truthy (lp_placed gp) \<and> lp_placed gp \<noteq> Num 999)
                  (mset (getLivePlayers be tournamentId)))"
    by simp
  show ?thesis
    using a m s f by (simp only: r t simp_thms)
qed

lemma loadGameResults_no_game:
  assumes "find (\<lambda>g. g_scheduleId g = Some (s_id schedule)) (getLiveGames be tournamentId) = None"
  shows "results (loadGameResults be org schedule tournamentId st) = []
       \<and> totalPrizePool (loadGameResults be org schedule tournamentId st) = totalPrizePool st"
  using assms by (simp add: loadGameResults_def)

lemma loadGameResults_initial_total:
  "totalPrizePool (loadGameResults be org schedule tournamentId initialGameResultsState)
     = sum_list (map r_prizeMoney
         (results (loadGameResults be org schedule tournamentId initialGameResultsState)))"
  by (simp add: loadGameResults_def Let_def foldl_add_sum initialGameResultsState_def
      split: option.split)

lemma pointLevels_of_upd:
  "pointLevels_of (be\<lparr>fetch_live_game := gs\<rparr>) t = pointLevels_of be t"
  "pointLevels_of (be\<lparr>fetch_live_players := ps\<rparr>) t = pointLevels_of be t"
  by (simp_all add: pointLevels_of_def getPointLevels_def split: option.split)

lemma gameResult_of_totalPot:
  "gameResult_of (be\<lparr>fetch_live_game := gs\<rparr>) org tournamentId (game\<lparr>g_totalPot := pot\<rparr>)
     = gameResult_of be org tournamentId game"
  by (simp add: gameResult_of_def gameResult_def Let_def getPlayers_def getLivePrizes_def
      getTournaments_def pointLevels_of_upd fun_eq_iff)

lemma gamePlayers_of_totalPot:
  "gamePlayers_of (be\<lparr>fetch_live_game := gs\<rparr>) tournamentId (game\<lparr>g_totalPot := pot\<rparr>)
     = gamePlayers_of be tournamentId game"
  by (simp add: gamePlayers_of_def api_defs)

lemma loadGameResults_totalPot:
  "loadGameResults (be\<lparr>fetch_live_game := \<lambda>t. map (\<lambda>g. g\<lparr>g_totalPot := pot g\<rparr>) (fetch_live_game be t)\<rparr>)
       org schedule tournamentId st
     = loadGameResults be org schedule tournamentId st"
proof -
  let ?be = "be\<lparr>fetch_live_game := \<lambda>t. map (\<lambda>g. g\<lparr>g_totalPot := pot g\<rparr>) (fetch_live_game be t)\<rparr>"
  have f: "find (\<lambda>g. g_scheduleId g = Some (s_id schedule)) (getLiveGames ?be tournamentId)
        = map_option (\<lambda>g. g\<lparr>g_totalPot := pot g\<rparr>)
            (find (\<lambda>g. g_scheduleId g = Some (s_id schedule)) (getLiveGames be tournamentId))"
    by (simp add: getLiveGames_def find_map)
  show ?thesis
  proof (cases "find (\<lambda>g. g_scheduleId g = Some (s_id schedule)) (getLiveGames be tournamentId)")
    case None
    with f show ?thesis by (simp add: loadGameResults_def)
  next
    case (Some game)
    with f show ?thesis
      by (simp add: loadGameResults_def Let_def gameResults_of_def gameResult_of_totalPot
          gamePlayers_of_totalPot)
  qed
qed

lemma ex_find_game_S1:
  "find (\<lambda>g. g_scheduleId g = Some (s_id (ex_schedule ''S1'' None (Some ''T1'') (Some ''2024-03-01''))))
     (getLiveGames ex_be ''T1'') = Some (ex_game ''G1'' (Some ''S1'') (Some 500))"
  by (simp add: getLiveGames_def ex_be_def ex_game_def ex_schedule_def)

lemma ex_gamePlayers_G1:
  "gamePlayers_of ex_be ''T1'' (ex_game ''G1'' (Some ''S1'') (Some 500)) =
     [ex_row ''G1'' ''b'' (Num 2), ex_row ''G1'' ''a'' (Num 1), ex_row ''G1'' ''c'' (Num 999),
      ex_row ''G1'' ''d'' Undefined, ex_row ''G1'' ''e'' (Num 0)]"
  by (simp add: gamePlayers_of_def getLivePlayers_def ex_be_def ex_game_def ex_row_sel)

lemma ex_results_S1:
  "results (loadGameResults ex_be ''ORG'' (ex_schedule ''S1'' None (Some ''T1'') (Some ''2024-03-01''))
              ''T1'' initialGameResultsState)
   = [\<lparr>r_position = 1, r_playerName = ''Ann Ace'', r_points = 50, r_prizeMoney = 100\<rparr>,
      \<lparr>r_position = 2, r_playerName = ''Bob Bet'', r_points = 30, r_prizeMoney = 0\<rparr>]"
  by (simp add: loadGameResults_def ex_find_game_S1 gameResults_of_def ex_gamePlayers_G1
      ex_result_rows_G1 js_sort_def Let_def)

text \<open>
  C4. The resolver takes the first played game whose \<^verbatim>\<open>scheduleId\<close> is the schedule's id.
  Its table holds one row for each participation of that game whose position is a number
  other than 0 and 999, and no other row; the rows are in ascending order of position,
  rows of equal position in the order of the collection; and the prize pool is the sum of
  the prizes of the rows. The pot stored on the played game has no influence on anything
  the resolver sets. When no played game matches, the table is empty and the prize pool
  keeps its value, which is 0, the sum of no rows, on a fresh modal.
\<close>

theorem loadGameResults_table:
  "(find (\<lambda>g. g_scheduleId g = Some (s_id schedule)) (getLiveGames be tournamentId) = Some game \<longrightarrow>
      g_scheduleId game = Some (s_id schedule)
    \<and> mset (results (loadGameResults be org schedule tournamentId st))
        = image_mset (gameResult_of be org tournamentId game)
            (filter_mset (\<lambda>gp. lp_liveGameId gp = g_id game
                              \<and> truthy (lp_placed gp) \<and> lp_placed gp \<noteq> Num 999)
               (mset (getLivePlayers be tournamentId)))
    \<and> sorted (map r_position (results (loadGameResults be org schedule tournamentId st)))
    \<and> (\<forall>p. filter (\<lambda>r. r_position r = p) (results (loadGameResults be org schedule tournamentId st))
           = filter (\<lambda>r. r_position r = p)
               (map (gameResult_of be org tournamentId game)
                  (filter (\<lambda>gp. lp_liveGameId gp = g_id game
                              \<and> truthy (lp_placed gp) \<and> lp_placed gp \<noteq> Num 999)
                     (getLivePlayers be tournamentId))))
    \<and> totalPrizePool (loadGameResults be org schedule tournamentId st)
        = sum_list (map r_prizeMoney (results (loadGameResults be org schedule tournamentId st))))
   \<and> (find (\<lambda>g. g_scheduleId g = Some (s_id schedule)) (getLiveGames be tournamentId) = None \<longrightarrow>
        results (loadGameResults be org schedule tournamentId st) = []
      \<and> totalPrizePool (loadGameResults be org schedule tournamentId st) = totalPrizePool st)
   \<and> totalPrizePool (loadGameResults be org schedule tournamentId initialGameResultsState)
       = sum_list (map r_prizeMoney
           (results (loadGameResults be org schedule tournamentId initialGameResultsState)))
   \<and> loadGameResults
        (be\<lparr>fetch_live_game := \<lambda>t. map (\<lambda>g. g\<lparr>g_totalPot := pot g\<rparr>) (fetch_live_game be t)\<rparr>)
        org schedule tournamentId st
       = loadGameResults be org schedule tournamentId st"
  apply (rule conjI)
   apply (rule impI)
   apply (erule loadGameResults_found)
  apply (rule conjI)
   apply (rule impI)
   apply (erule loadGameResults_no_game)
  apply (rule conjI)
   apply (rule loadGameResults_initial_total)
  apply (rule loadGameResults_totalPot)
  done

theorem loadGameResults_table_witness:
  "results (loadGameResults ex_be ''ORG'' (ex_schedule ''S1'' None (Some ''T1'') (Some ''2024-03-01''))
              ''T1'' initialGameResultsState)
   = [\<lparr>r_position = 1, r_playerName = ''Ann Ace'', r_points = 50, r_prizeMoney = 100\<rparr>,
      \<lparr>r_position = 2, r_playerName = ''Bob Bet'', r_points = 30, r_prizeMoney = 0\<rparr>]
   \<and> totalPrizePool (loadGameResults ex_be ''ORG''
        (ex_schedule ''S1'' None (Some ''T1'') (Some ''2024-03-01'')) ''T1'' initialGameResultsState) = 100
   \<and> g_totalPot (ex_game ''G1'' (Some ''S1'') (Some 500)) = Some 500"
  using loadGameResults_table [of "ex_schedule ''S1'' None (Some ''T1'') (Some ''2024-03-01'')" ex_be
      "''T1''" "ex_game ''G1'' (Some ''S1'') (Some 500)" "''ORG''" initialGameResultsState]
    ex_find_game_S1
  by (simp add: ex_results_S1 ex_game_def)

lemma gameResult_of_live_players:
  "gameResult_of (be\<lparr>fetch_live_players := ps\<rparr>) org tournamentId game
     = gameResult_of be org tournamentId game"
  by (simp add: gameResult_of_def getPlayers_def getLivePrizes_def getTournaments_def
      pointLevels_of_upd)

lemma filter_results_as_missing:
  "filter (\<lambda>r. r_position r \<noteq> 999)
     (map (gameResult_of be org tournamentId game)
        (map (\<lambda>lp. lp\<lparr>lp_placed := as_missing (lp_placed lp)\<rparr>) gps))
   = filter (\<lambda>r. r_position r \<noteq> 999) (map (gameResult_of be org tournamentId game) gps)"
proof (induction gps)
  case Nil
  then show ?case by simp
next
  case (Cons gp gps)
  show ?case
  proof (cases "or_999 (lp_placed gp) = 999")
    case True
    with Cons show ?thesis
      by (simp add: r_position_gameResult_of or_999_as_missing)
  next
    case False
    then have "gp\<lparr>lp_placed := as_missing (lp_placed gp)\<rparr> = gp"
      by (simp add: as_missing_keep)
    with Cons False show ?thesis
      by (simp add: r_position_gameResult_of)
  qed
qed

text \<open>
  C10. The number 999 stands for a missing position. A participation whose recorded
  position is 999, 0, \<^verbatim>\<open>null\<close> or absent gets the row position 999 and is filtered out:
  no row of the table has position 999 or 0, and the resolver sets the same state as it
  does when every such position is replaced by an absent one.
\<close>

theorem loadGameResults_sentinel_999:
  "(\<forall>r \<in> set (results (loadGameResults be org schedule tournamentId st)).
       r_position r \<noteq> 999 \<and> r_position r \<noteq> 0)
   \<and> (lp_placed gp = Num 999 \<or> lp_placed gp = Num 0 \<or> lp_placed gp = Undefined \<or> lp_placed gp = Null
        \<longrightarrow> r_position (gameResult_of be org tournamentId game gp) = 999)
   \<and> loadGameResults
        (be\<lparr>fetch_live_players :=
              \<lambda>t. map (\<lambda>lp. lp\<lparr>lp_placed := as_missing (lp_placed lp)\<rparr>) (fetch_live_players be t)\<rparr>)
        org schedule tournamentId st
      = loadGameResults be org schedule tournamentId st"
proof -
  let ?be = "be\<lparr>fetch_live_players :=
              \<lambda>t. map (\<lambda>lp. lp\<lparr>lp_placed := as_missing (lp_placed lp)\<rparr>) (fetch_live_players be t)\<rparr>"
  have a: "\<forall>r \<in> set (results (loadGameResults be org schedule tournamentId st)).
       r_position r \<noteq> 999 \<and> r_position r \<noteq> 0"
  proof (cases "find (\<lambda>g. g_scheduleId g = Some (s_id schedule)) (getLiveGames be tournamentId)")
    case None
    then show ?thesis by (simp add: loadGameResults_def)
  next
    case (Some game)
    then have "results (loadGameResults be org schedule tournamentId st)
                 = gameResults_of be org tournamentId game"
      by (simp add: loadGameResults_def Let_def)
    then show ?thesis
      by (auto simp: gameResults_of_sort_key r_position_gameResult_of or_999_nonzero or_999_keep)
  qed
  have b: "r_position (gameResult_of be org tournamentId game gp) = 999"
    if "lp_placed gp = Num 999 \<or> lp_placed gp = Num 0 \<or> lp_placed gp = Undefined \<or> lp_placed gp = Null"
    using that by (auto simp: r_position_gameResult_of)
  have gp: "gamePlayers_of ?be tournamentId g
          = map (\<lambda>lp. lp\<lparr>lp_placed := as_missing (lp_placed lp)\<rparr>) (gamePlayers_of be tournamentId g)" for g
    by (simp add: gamePlayers_of_def getLivePlayers_def filter_map comp_def)
  have gr: "gameResults_of ?be org tournamentId g = gameResults_of be org tournamentId g" for g
    by (simp only: gameResults_of_def gp gameResult_of_live_players filter_results_as_missing)
  have c: "loadGameResults ?be org schedule tournamentId st
             = loadGameResults be org schedule tournamentId st"
    by (simp add: loadGameResults_def Let_def gr gp getLiveGames_def split: option.split)
  from a b c show ?thesis by (intro conjI impI)
qed

theorem loadGameResults_sentinel_999_witness:
  "lp_placed (ex_row ''G1'' ''c'' (Num 999)) = Num 999
   \<and> r_position (gameResult_of ex_be ''ORG'' ''T1'' (ex_game ''G1'' (Some ''S1'') (Some 500))
        (ex_row ''G1'' ''c'' (Num 999))) = 999
   \<and> map r_position (results (loadGameResults ex_be ''ORG''
        (ex_schedule ''S1'' None (Some ''T1'') (Some ''2024-03-01'')) ''T1'' initialGameResultsState))
      = [1, 2]"
  using loadGameResults_sentinel_999 [of ex_be "''ORG''"
      "ex_schedule ''S1'' None (Some ''T1'') (Some ''2024-03-01'')" "''T1''"
      initialGameResultsState "ex_row ''G1'' ''c'' (Num 999)" "ex_game ''G1'' (Some ''S1'') (Some 500)"]
  by (simp add: ex_results_S1 ex_row_sel)

section \<open>Leaderboard entries, ranks and the schedule filter\<close>

lemma ex_leaderboard:
  "leaderboard (loadLeaderboard ex_be ''T1'' initialLeaderboardState) =
     [\<lparr>e_id = ''tp_a'', e_tournamentId = ''T1'', e_playerId = ''a'', e_totalEliminated = None,
       e_earnings = Some 100, e_rank = 1, e_totalPoints = 480, e_gamesPlayed = 12,
       e_totalWinnings = 100, e_totalKnockouts = 0, e_totalBounties = 0, e_averagePoints = 40,
       e_player = ex_player ''a'' ''Ann'' ''Ace''\<rparr>,
      \<lparr>e_id = ''tp_b'', e_tournamentId = ''T1'', e_playerId = ''b'', e_totalEliminated = None,
       e_earnings = Some 250, e_rank = 2, e_totalPoints = 300, e_gamesPlayed = 10,
       e_totalWinnings = 250, e_totalKnockouts = 0, e_totalBounties = 0, e_averagePoints = 30,
       e_player = ex_player ''b'' ''Bob'' ''Bet''\<rparr>,
      \<lparr>e_id = ''tp_z'', e_tournamentId = ''T1'', e_playerId = ''z'', e_totalEliminated = None,
       e_earnings = None, e_rank = 3, e_totalPoints = 0, e_gamesPlayed = 0,
       e_totalWinnings = 0, e_totalKnockouts = 0, e_totalBounties = 0, e_averagePoints = 0,
       e_player = unknownPlayer ''z''\<rparr>]"
  by (simp add: loadLeaderboard_def ex_be_def ex_standing_def ex_player_def api_defs Let_def
      enumerate_eq_zip upt_rec leaderboardEntry_def averagePoints_def build_map_def)

lemma ex_sorted_winnings:
  "getSortedLeaderboard (setView winnings (loadLeaderboard ex_be ''T1'' initialLeaderboardState))
   = (let l = leaderboard (loadLeaderboard ex_be ''T1'' initialLeaderboardState)
      in [l ! 1, l ! 0, l ! 2])"
  by (simp add: getSortedLeaderboard_def setView_def ex_leaderboard js_sort_def Let_def)

text \<open>
  C6. For the entry built from the \<open>i\<close>-th standing: when its games played are positive,
  its average is its total points divided by its games played; when the standing's games
  played are 0 or missing, the average is 0; so no entry divides by zero.
\<close>

theorem loadLeaderboard_averagePoints:
  assumes "i < length (getTournamentPlayers be tournamentId)"
  shows "(let tp = getTournamentPlayers be tournamentId ! i;
              e = leaderboard (loadLeaderboard be tournamentId st) ! i
          in (0 < e_gamesPlayed e \<longrightarrow> e_averagePoints e = e_totalPoints e / e_gamesPlayed e)
           \<and> (tp_gamesPlayed tp = None \<or> tp_gamesPlayed tp = Some 0 \<longrightarrow> e_averagePoints e = 0)
           \<and> (e_gamesPlayed e = 0 \<longrightarrow> e_averagePoints e = 0))"
  using assms
  by (auto simp: loadLeaderboard_def Let_def nth_enumerate_eq leaderboardEntry_def averagePoints_def
      split: option.splits)

theorem loadLeaderboard_averagePoints_witness:
  "(0::nat) < length (getTournamentPlayers ex_be ''T1'')
   \<and> e_gamesPlayed (leaderboard (loadLeaderboard ex_be ''T1'' initialLeaderboardState) ! 0) = 12
   \<and> e_totalPoints (leaderboard (loadLeaderboard ex_be ''T1'' initialLeaderboardState) ! 0) = 480
   \<and> e_averagePoints (leaderboard (loadLeaderboard ex_be ''T1'' initialLeaderboardState) ! 0) = 480 / 12"
proof -
  have l: "(0::nat) < length (getTournamentPlayers ex_be ''T1'')"
    by (simp add: ex_be_def getTournamentPlayers_def)
  show ?thesis
    using l loadLeaderboard_averagePoints [OF l, of initialLeaderboardState]
    by (simp add: ex_leaderboard Let_def)
qed

text \<open>
  Of the records the service returns, the client keeps exactly those whose
  \<^verbatim>\<open>tournamentId\<close> is \<open>T\<close> or whose misspelled \<^verbatim>\<open>tournamnetId\<close> is \<open>T\<close>.
\<close>

lemma getTournamentSchedule_client_filter:
  "s \<in> set (getTournamentSchedule be org T)
     \<longleftrightarrow> s \<in> set (fetch_tournament_schedule be [Eq ''orgId'' org, Eq ''tournamnetId'' T])
         \<and> (s_tournamentId s = Some T \<or> s_tournamnetId s = Some T)"
  by (auto simp: getTournamentSchedule_def)



text \<open>
  The \<^verbatim>\<open>rank\<close> field stored in an entry is another number than the rank the table shows:
  it is the place of the standing in the fetched collection, set when the leaderboard is
  loaded, and sorting does not touch it. The table never reads it.
\<close>

lemma loadLeaderboard_stored_rank:
  "i < length (getTournamentPlayers be tournamentId) \<Longrightarrow>
     e_rank (leaderboard (loadLeaderboard be tournamentId st) ! i) = i + 1"
  by (simp add: loadLeaderboard_def Let_def nth_enumerate_eq leaderboardEntry_def)

lemma ex_stored_rank_after_sort:
  "e_rank (getSortedLeaderboard
             (setView winnings (loadLeaderboard ex_be ''T1'' initialLeaderboardState)) ! 0) = 2"
  by (simp add: ex_sorted_winnings ex_leaderboard)

text \<open>
  C8. Under every criterion the table has one row for each entry, the \<open>i\<close>-th row (counted
  from 0) shows the \<open>i\<close>-th entry of the sorted output and the rank number \<open>i + 1\<close>. The
  number is computed while the rows are rendered and stored nowhere: choosing a criterion
  changes the view alone, and the rows rendered next carry the ranks of the new order.
\<close>

theorem renderLeaderboard_rank_positional:
  "length (renderLeaderboard (setView v st)) = length (leaderboard st)
   \<and> (\<forall>i < length (leaderboard st).
         row_rank (renderLeaderboard (setView v st) ! i) = i + 1
       \<and> row_entry (renderLeaderboard (setView v st) ! i) = getSortedLeaderboard (setView v st) ! i)
   \<and> leaderboard (setView v st) = leaderboard st
   \<and> view (setView v st) = v"
proof -
  have "length (getSortedLeaderboard (setView v st)) = length (leaderboard (setView v st))"
    using mset_sort [of "\<lambda>e. - metric (view (setView v st)) e" "leaderboard (setView v st)"]
    by (simp add: getSortedLeaderboard_sort_key)
  then have len: "length (getSortedLeaderboard (setView v st)) = length (leaderboard st)"
    by (simp add: setView_def)
  then show ?thesis
    by (auto simp: renderLeaderboard_def renderRows_def nth_enumerate_eq setView_def)
qed

theorem renderLeaderboard_rank_positional_witness:
  "(0::nat) < length (leaderboard (loadLeaderboard ex_be ''T1'' initialLeaderboardState))
   \<and> row_rank (renderLeaderboard
        (setView winnings (loadLeaderboard ex_be ''T1'' initialLeaderboardState)) ! 0) = 1
   \<and> e_playerId (row_entry (renderLeaderboard
        (setView winnings (loadLeaderboard ex_be ''T1'' initialLeaderboardState)) ! 0)) = ''b''"
  using renderLeaderboard_rank_positional
      [of winnings "loadLeaderboard ex_be ''T1'' initialLeaderboardState"]
  by (simp add: ex_sorted_winnings ex_leaderboard)

end
